theory Spec2Isabelle
  imports Complex_Main "HOL-Library.AList" "HOL-Library.Sublist"
begin

section \<open>Python values used by the confirmation workflow\<close>

text \<open>
  The exceptions the modelled code can raise by itself.  All of them are instances of
  Python's \<open>Exception\<close>, the class every handler of the source catches.
\<close>

datatype py_error = KeyError | TypeError | AttributeError

text \<open>
  Values decoded from a JSON body (\<open>response.json()\<close>).  A \<open>JObj\<close> holds the items of
  a Python dict in insertion order.  Numbers are integers, the only numbers in the
  updates of the Bot API.
\<close>

datatype json =
    JNull
  | JBool bool
  | JInt int
  | JStr string
  | JArr "json list"
  | JObj "(string \<times> json) list"

text \<open>
  What calling a resume callback does: it returns a value, or it raises an exception
  \<open>e\<close>, of which the code only uses \<open>str(e)\<close>.
\<close>

datatype 'r outcome = Returned 'r | Raised string

section \<open>confirmation\_handler.py\<close>

text \<open>
  One entry of \<open>pending_confirmations\<close>: the dict built in \<open>create_confirmation\<close>.
  A callback that is \<open>None\<close> in Python is \<open>None\<close> here.  Times are the readings of
  \<open>time.time()\<close>, in seconds, taken as real numbers.
\<close>

record ('d, 'r) conf =
  message :: string
  data :: 'd
  on_confirm :: "('d \<Rightarrow> 'r outcome) option"
  on_cancel :: "('d \<Rightarrow> 'r outcome) option"
  timestamp :: real

text \<open>
  The \<open>ConfirmationHandler\<close> object.  The dict \<open>pending_confirmations\<close> is kept as the
  list of its items: \<open>d[k] = v\<close> is \<open>AList.update\<close> (an existing key keeps its place, a
  new one goes last), \<open>d.pop(k)\<close> and \<open>del d[k]\<close> are \<open>AList.delete\<close>, \<open>k in d\<close> and
  \<open>d[k]\<close> are \<open>map_of\<close>.
\<close>

record ('d, 'r) handler =
  pending_confirmations :: "(string \<times> ('d, 'r) conf) list"
  timeout_seconds :: real

definition init_handler :: "('d, 'r) handler" where
  "init_handler = \<lparr>pending_confirmations = [], timeout_seconds = 300\<rparr>"

text \<open>
  The dict returned by \<open>handle_response\<close>, one constructor for each shape the source
  builds:
  \<^item> \<open>Error m\<close> is \<open>{"error": m}\<close>;
  \<^item> \<open>Success_result r\<close> is \<open>{"success": True, "result": r}\<close>;
  \<^item> \<open>Success_result_cancelled r\<close> is \<open>{"success": True, "result": r, "cancelled": True}\<close>;
  \<^item> \<open>Success_cancelled b\<close> is \<open>{"success": True, "cancelled": b}\<close>.
\<close>

datatype 'r response =
    Error string
  | Success_result 'r
  | Success_result_cancelled 'r
  | Success_cancelled bool

text \<open>
  The two fixed error messages, as UTF-8 bytes (the letter o with acute accent is the
  two bytes C3 B3).
\<close>

definition msg_not_found :: string where
  "msg_not_found = ''Confirmaci'' @ [CHR 0xC3, CHR 0xB3] @ ''n no encontrada o expirada''"

definition msg_expired :: string where
  "msg_expired = ''Confirmaci'' @ [CHR 0xC3, CHR 0xB3] @ ''n expirada''"

text \<open>
  A record of which resume callback was invoked, with the id of the confirmation it
  belongs to.
\<close>

datatype call = On_confirm string | On_cancel string

text \<open>
  \<open>create_confirmation\<close>.  The argument \<open>u\<close> is the text of \<open>str(uuid.uuid4())\<close> and
  \<open>t\<close> the reading of \<open>time.time()\<close>.  The id is the first eight characters of \<open>u\<close>;
  the entry is stored by plain assignment.
\<close>

definition create_confirmation ::
  "('d, 'r) handler \<Rightarrow> string \<Rightarrow> real \<Rightarrow> string \<Rightarrow> 'd \<Rightarrow>
   ('d \<Rightarrow> 'r outcome) option \<Rightarrow> ('d \<Rightarrow> 'r outcome) option \<Rightarrow>
   string \<times> ('d, 'r) handler" where
  "create_confirmation h u t msg dat on_c on_x =
     (let confirmation_id = take 8 u
      in (confirmation_id,
          h\<lparr>pending_confirmations :=
               AList.update confirmation_id
                 \<lparr>message = msg, data = dat, on_confirm = on_c, on_cancel = on_x,
                  timestamp = t\<rparr>
                 (pending_confirmations h)\<rparr>))"

text \<open>
  \<open>handle_response\<close>.  It returns the result dict, the handler after the call and the
  callbacks it invoked.  \<open>t\<close> is the reading of \<open>time.time()\<close> in the timeout check.
\<close>

definition handle_response ::
  "('d, 'r) handler \<Rightarrow> string \<Rightarrow> bool \<Rightarrow> real \<Rightarrow>
   'r response \<times> ('d, 'r) handler \<times> call list" where
  "handle_response h confirmation_id confirmed t =
     (case map_of (pending_confirmations h) confirmation_id of
        None \<Rightarrow> (Error msg_not_found, h, [])
      | Some c \<Rightarrow>
          (let h' = h\<lparr>pending_confirmations :=
                        AList.delete confirmation_id (pending_confirmations h)\<rparr>
           in if t - timestamp c > timeout_seconds h then (Error msg_expired, h', [])
              else
                (case (if confirmed then on_confirm c else None) of
                   Some f \<Rightarrow>
                     (case f (data c) of
                        Returned r \<Rightarrow> (Success_result r, h', [On_confirm confirmation_id])
                      | Raised e \<Rightarrow> (Error e, h', [On_confirm confirmation_id]))
                 | None \<Rightarrow>
                     (case (if \<not> confirmed then on_cancel c else None) of
                        Some g \<Rightarrow>
                          (case g (data c) of
                             Returned r \<Rightarrow>
                               (Success_result_cancelled r, h', [On_cancel confirmation_id])
                           | Raised e \<Rightarrow> (Error e, h', [On_cancel confirmation_id]))
                      | None \<Rightarrow> (Success_cancelled (\<not> confirmed), h', [])))))"

text \<open>
  \<open>cleanup_expired\<close>.  First the list \<open>expired\<close> of ids is computed from one reading
  \<open>current_time\<close> of the clock, then each id is deleted in turn.  \<open>del d[cid]\<close> raises
  \<open>KeyError\<close> when the key is absent; the deletions made before it stay.  No callback
  is called anywhere in the method, so the list of calls is empty.
\<close>

definition expired_ids :: "('d, 'r) handler \<Rightarrow> real \<Rightarrow> string list" where
  "expired_ids h current_time =
     map fst (filter (\<lambda>(cid, c). current_time - timestamp c > timeout_seconds h)
                (pending_confirmations h))"

fun del_each ::
  "(string \<times> 'v) list \<Rightarrow> string list \<Rightarrow> py_error option \<times> (string \<times> 'v) list" where
  "del_each d [] = (None, d)"
| "del_each d (cid # cids) =
     (if cid \<in> fst ` set d then del_each (AList.delete cid d) cids else (Some KeyError, d))"

definition cleanup_expired ::
  "('d, 'r) handler \<Rightarrow> real \<Rightarrow> py_error option \<times> ('d, 'r) handler \<times> call list" where
  "cleanup_expired h current_time =
     (case del_each (pending_confirmations h) (expired_ids h current_time) of
        (e, d) \<Rightarrow> (e, h\<lparr>pending_confirmations := d\<rparr>, []))"

section \<open>Strings and JSON objects as Python uses them\<close>

text \<open>
  \<open>s.replace(old, new)\<close>: every occurrence of \<open>old\<close> met while scanning \<open>s\<close> from the
  left is replaced, and the scan goes on after the occurrence.  With an empty \<open>old\<close>,
  Python puts \<open>new\<close> before every character and at the end.
\<close>

function replace_str :: "string \<Rightarrow> string \<Rightarrow> string \<Rightarrow> string" where
  "replace_str old new [] = (if old = [] then new else [])"
| "replace_str old new (c # cs) =
     (if old = [] then new @ c # replace_str old new cs
      else if prefix old (c # cs)
        then new @ replace_str old new (drop (length old) (c # cs))
      else c # replace_str old new cs)"
  by pat_completeness auto
termination
  by (relation "measure (\<lambda>(old, new, s). length s)") auto

text \<open>\<open>d[k]\<close> on a decoded JSON value: only a dict can be subscripted by a string.\<close>

fun subscript :: "json \<Rightarrow> string \<Rightarrow> py_error + json" where
  "subscript (JObj items) k = (case map_of items k of None \<Rightarrow> Inl KeyError | Some v \<Rightarrow> Inr v)"
| "subscript _ k = Inl TypeError"

text \<open>Python's truth value of a decoded JSON value.\<close>

fun truthy :: "json \<Rightarrow> bool" where
  "truthy JNull = False"
| "truthy (JBool b) = b"
| "truthy (JInt n) = (n \<noteq> 0)"
| "truthy (JStr s) = (s \<noteq> [])"
| "truthy (JArr xs) = (xs \<noteq> [])"
| "truthy (JObj items) = (items \<noteq> [])"

section \<open>telegram\_sender.py\<close>

text \<open>
  The two settings of \<open>Config\<close> the sender reads.  \<open>os.getenv\<close> gives \<open>None\<close> or a
  string; \<open>not x\<close> holds for \<open>None\<close> and for the empty string.
\<close>

record config =
  TELEGRAM_BOT_TOKEN :: "string option"
  TELEGRAM_CHAT_ID :: "string option"

definition missing :: "string option \<Rightarrow> bool" where
  "missing x = (case x of None \<Rightarrow> True | Some s \<Rightarrow> s = [])"

text \<open>The labels of the two buttons, as UTF-8 bytes.\<close>

definition label_yes :: string where
  "label_yes = [CHR 0xE2, CHR 0x9C, CHR 0x85] @ '' S'' @ [CHR 0xC3, CHR 0xAD] @ '', corregir''"

definition label_no :: string where
  "label_no = [CHR 0xE2, CHR 0x9D, CHR 0x8C] @ '' No, dejar as'' @ [CHR 0xC3, CHR 0xAD]"

text \<open>
  \<open>send_confirmation_message\<close>.  The result is the JSON payload handed to
  \<open>httpx.post\<close>, or \<open>None\<close> when the method returns early because a credential is
  missing.  What the POST answers is only logged.
\<close>

definition send_confirmation_message :: "config \<Rightarrow> string \<Rightarrow> string \<Rightarrow> json option" where
  "send_confirmation_message cfg txt confirmation_id =
     (if missing (TELEGRAM_BOT_TOKEN cfg) \<or> missing (TELEGRAM_CHAT_ID cfg) then None
      else
        (let keyboard =
               JObj [(''inline_keyboard'',
                      JArr [JArr
                        [JObj [(''text'', JStr label_yes),
                               (''callback_data'', JStr (''confirm_'' @ confirmation_id))],
                         JObj [(''text'', JStr label_no),
                               (''callback_data'', JStr (''cancel_'' @ confirmation_id))]]])]
         in Some (JObj [(''chat_id'', JStr (the (TELEGRAM_CHAT_ID cfg))),
                        (''text'', JStr txt),
                        (''reply_markup'', keyboard)])))"

section \<open>bot\_server.py\<close>

text \<open>
  The \<open>TelegramBotServer\<close> object.  \<open>last_update_id\<close> holds whatever
  \<open>update["update_id"]\<close> was, so it is a JSON value; it starts as the integer 0.
\<close>

record bot =
  last_update_id :: json
  running :: bool

definition init_bot :: bot where
  "init_bot = \<lparr>last_update_id = JInt 0, running = False\<rparr>"

text \<open>
  What the world does while one update is handled: the clock reading seen by
  \<open>handle_response\<close>, and whether the POST to \<open>answerCallbackQuery\<close> raises.
\<close>

record env =
  now :: real
  post_raises :: bool

text \<open>
  What handling an update does besides changing the store: a resume callback is
  invoked; the POST that answers the callback query with the given \<open>id\<close> is made (the
  flag is \<open>confirmed\<close>, which selects the text of the answer); the code reaches the
  formatting and sending of the result message for the given result dict.
\<close>

datatype 'r effect =
    Invoked call
  | Post_answer json bool
  | Send_result "'r response"

text \<open>
  \<open>start_polling\<close> returns early when the server is already running; otherwise it sets
  the flag and starts the thread that runs \<open>_poll_loop\<close>.  The second component tells
  whether a thread was started.  \<open>stop_polling\<close> only clears the flag.
\<close>

definition start_polling :: "bot \<Rightarrow> bot \<times> bool" where
  "start_polling b = (if running b then (b, False) else (b\<lparr>running := True\<rparr>, True))"

definition stop_polling :: "bot \<Rightarrow> bot" where
  "stop_polling b = b\<lparr>running := False\<rparr>"

text \<open>
  \<open>_handle_confirmation\<close>.  The call of \<open>handle_response\<close> comes first, outside the
  \<open>try\<close>.  Everything after it is inside one \<open>try\<close> whose handler only logs:
  \<open>callback["id"]\<close> may raise \<open>KeyError\<close>, the POST may raise, and then nothing more is
  done.  The method itself never raises.
\<close>

definition handle_confirmation ::
  "('d, 'r) handler \<Rightarrow> string \<Rightarrow> bool \<Rightarrow> json \<Rightarrow> env \<Rightarrow> ('d, 'r) handler \<times> 'r effect list" where
  "handle_confirmation h confirmation_id confirmed callback e =
     (case handle_response h confirmation_id confirmed (now e) of
        (result, h', calls) \<Rightarrow>
          (h', map Invoked calls @
               (case subscript callback ''id'' of
                  Inl _ \<Rightarrow> []
                | Inr cb_id \<Rightarrow>
                    if post_raises e then [Post_answer cb_id confirmed]
                    else [Post_answer cb_id confirmed, Send_result result])))"

text \<open>
  \<open>_handle_update\<close>.  An exception leaves the method before the store is touched:
  \<open>callback.get\<close> exists only on a dict and \<open>startswith\<close> only on a string
  (\<open>AttributeError\<close>); on an update that is not a dict, \<open>in\<close> is a substring or
  membership test, or a \<open>TypeError\<close>, and the subscript that follows a successful test
  is a \<open>TypeError\<close>.
\<close>

definition handle_update ::
  "('d, 'r) handler \<Rightarrow> json \<Rightarrow> env \<Rightarrow> py_error + (('d, 'r) handler \<times> 'r effect list)" where
  "handle_update h update e =
     (case update of
        JObj items \<Rightarrow>
          (case map_of items ''callback_query'' of
             None \<Rightarrow> Inr (h, [])
           | Some callback \<Rightarrow>
               (case callback of
                  JObj cb_items \<Rightarrow>
                    (case (case map_of cb_items ''data'' of None \<Rightarrow> JStr [] | Some v \<Rightarrow> v) of
                       JStr callback_data \<Rightarrow>
                         if prefix ''confirm_'' callback_data then
                           Inr (handle_confirmation h
                                  (replace_str ''confirm_'' [] callback_data) True callback e)
                         else if prefix ''cancel_'' callback_data then
                           Inr (handle_confirmation h
                                  (replace_str ''cancel_'' [] callback_data) False callback e)
                         else Inr (h, [])
                     | _ \<Rightarrow> Inl AttributeError)
                | _ \<Rightarrow> Inl AttributeError))
      | JStr s \<Rightarrow> if sublist ''callback_query'' s then Inl TypeError else Inr (h, [])
      | JArr xs \<Rightarrow> if JStr ''callback_query'' \<in> set xs then Inl TypeError else Inr (h, [])
      | _ \<Rightarrow> Inl TypeError)"

text \<open>
  The loop \<open>for update in updates\<close> of \<open>_poll_once\<close>: handle the update, then store
  its \<open>update_id\<close>.  An exception raised by either statement leaves the loop (it is
  caught by the \<open>except\<close> around the whole body of \<open>_poll_once\<close>); what was done before
  stays.  Each update comes with the environment it meets.  The first component is the
  exception that ended the loop, if any.
\<close>

fun for_updates ::
  "bot \<Rightarrow> ('d, 'r) handler \<Rightarrow> (json \<times> env) list \<Rightarrow>
   py_error option \<times> bot \<times> ('d, 'r) handler \<times> 'r effect list" where
  "for_updates b h [] = (None, b, h, [])"
| "for_updates b h ((update, e) # rest) =
     (case handle_update h update e of
        Inl err \<Rightarrow> (Some err, b, h, [])
      | Inr (h', fx) \<Rightarrow>
          (case subscript update ''update_id'' of
             Inl err \<Rightarrow> (Some err, b, h', fx)
           | Inr n \<Rightarrow>
               (case for_updates (b\<lparr>last_update_id := n\<rparr>) h' rest of
                  (r, b', h'', fx') \<Rightarrow> (r, b', h'', fx @ fx'))))"

text \<open>
  \<open>_poll_once\<close>.  The outcome of \<open>httpx.get\<close> is an input: the call raises, or it gives
  a status code and a body, whose decoding \<open>response.json()\<close> may raise (\<open>None\<close>).
  \<open>last_update_id + 1\<close> is computed first and raises \<open>TypeError\<close> unless the value is a
  number.  \<open>data.get\<close> exists only on a dict.  Iterating a \<open>result\<close> that is not a list
  either raises or yields strings, on which the loop body raises at once; the state is
  unchanged in all these cases.  Every exception is caught and logged, so the method
  returns the state reached.  \<open>envs i\<close> is the environment met by the \<open>i\<close>-th update.
\<close>

datatype http_result = Get_raises | Response int "json option"

definition poll_once ::
  "bot \<Rightarrow> ('d, 'r) handler \<Rightarrow> http_result \<Rightarrow> (nat \<Rightarrow> env) \<Rightarrow>
   bot \<times> ('d, 'r) handler \<times> 'r effect list" where
  "poll_once b h resp envs =
     (if \<not> (case last_update_id b of JInt _ \<Rightarrow> True | JBool _ \<Rightarrow> True | _ \<Rightarrow> False)
      then (b, h, [])
      else
        (case resp of
           Get_raises \<Rightarrow> (b, h, [])
         | Response status_code body \<Rightarrow>
             if status_code = 200 then
               (case body of
                  Some (JObj items) \<Rightarrow>
                    if (case map_of items ''ok'' of None \<Rightarrow> False | Some v \<Rightarrow> truthy v) then
                      (case (case map_of items ''result'' of None \<Rightarrow> JArr [] | Some v \<Rightarrow> v) of
                         JArr updates \<Rightarrow>
                           snd (for_updates b h
                                  (zip updates (map envs [0..<length updates])))
                       | _ \<Rightarrow> (b, h, []))
                    else (b, h, [])
                | _ \<Rightarrow> (b, h, []))
             else (b, h, [])))"

section \<open>Sequences of calls on the handler\<close>

text \<open>
  The calls the two threads make on the shared handler, in the order they take effect:
  the worker creates confirmations, the poller handles responses; a sweep may run in
  between.
\<close>

datatype ('d, 'r) op =
    Create string real string 'd "('d \<Rightarrow> 'r outcome) option" "('d \<Rightarrow> 'r outcome) option"
  | Handle string bool real
  | Cleanup real

fun step :: "('d, 'r) handler \<Rightarrow> ('d, 'r) op \<Rightarrow> ('d, 'r) handler \<times> call list" where
  "step h (Create u t msg dat on_c on_x) = (snd (create_confirmation h u t msg dat on_c on_x), [])"
| "step h (Handle cid confirmed t) = snd (handle_response h cid confirmed t)"
| "step h (Cleanup t) = snd (cleanup_expired h t)"

fun run :: "('d, 'r) handler \<Rightarrow> ('d, 'r) op list \<Rightarrow> ('d, 'r) handler \<times> call list" where
  "run h [] = (h, [])"
| "run h (x # xs) =
     (case step h x of (h', cs) \<Rightarrow> (case run h' xs of (h'', cs') \<Rightarrow> (h'', cs @ cs')))"

text \<open>The id a call of \<open>create_confirmation\<close> issues; the other calls issue none.\<close>

fun created_id :: "('d, 'r) op \<Rightarrow> string option" where
  "created_id (Create u t msg dat on_c on_x) = Some (take 8 u)"
| "created_id _ = None"

text \<open>The id whose callback a call record belongs to.\<close>

fun call_id :: "call \<Rightarrow> string" where
  "call_id (On_confirm cid) = cid"
| "call_id (On_cancel cid) = cid"

text \<open>The keys of the store, and the property of a dict that no key occurs twice.\<close>

definition keys :: "('d, 'r) handler \<Rightarrow> string list" where
  "keys h = map fst (pending_confirmations h)"

text \<open>
  Every entry of the store is within its timeout at time \<open>t\<close>: the reading of the
  spec's sentence that an id in the store has not expired.
\<close>

definition all_live :: "('d, 'r) handler \<Rightarrow> real \<Rightarrow> bool" where
  "all_live h t = list_all (\<lambda>(cid, c). t - timestamp c \<le> timeout_seconds h) (pending_confirmations h)"

section \<open>Payloads, effects and updates as seen from outside\<close>

text \<open>
  Reading a sent payload the way the chat client does: the \<open>callback_data\<close> of a
  button, and the callback data of all buttons of the inline keyboard, row by row.
\<close>

fun button_data :: "json \<Rightarrow> string option" where
  "button_data (JObj items) =
     (case map_of items ''callback_data'' of Some (JStr s) \<Rightarrow> Some s | _ \<Rightarrow> None)"
| "button_data _ = None"

definition keyboard_callbacks :: "json \<Rightarrow> string option list" where
  "keyboard_callbacks payload =
     (case subscript payload ''reply_markup'' of
        Inr markup \<Rightarrow>
          (case subscript markup ''inline_keyboard'' of
             Inr (JArr rows) \<Rightarrow>
               concat (map (\<lambda>row. case row of JArr bs \<Rightarrow> map button_data bs | _ \<Rightarrow> []) rows)
           | _ \<Rightarrow> [])
      | Inl _ \<Rightarrow> [])"

text \<open>
  The callbacks invoked, among the effects of handling an update.
\<close>

fun invoked :: "'r effect list \<Rightarrow> call list" where
  "invoked [] = []"
| "invoked (Invoked c # fx) = c # invoked fx"
| "invoked (_ # fx) = invoked fx"

text \<open>
  The shape of an update on which the body of the loop in \<open>_poll_once\<close> raises
  nothing: a dict with an \<open>update_id\<close> whose \<open>callback_query\<close>, if present, is a dict
  whose \<open>data\<close>, if present, is a string.  The updates of the Bot API have this shape.
\<close>

fun well_formed :: "json \<Rightarrow> bool" where
  "well_formed (JObj items) =
     (map_of items ''update_id'' \<noteq> None \<and>
      (case map_of items ''callback_query'' of
         None \<Rightarrow> True
       | Some (JObj cb) \<Rightarrow>
           (case map_of cb ''data'' of None \<Rightarrow> True | Some (JStr d) \<Rightarrow> True | Some _ \<Rightarrow> False)
       | Some _ \<Rightarrow> False))"
| "well_formed _ = False"

section \<open>Example values\<close>

text \<open>
  A store with one pending confirmation created at time 1000, whose callbacks take and
  return natural numbers; \<open>ex_fail\<close> is a callback that raises.
\<close>

definition ex_ok :: "nat \<Rightarrow> nat outcome" where
  "ex_ok d = Returned (d + 1)"

definition ex_no :: "nat \<Rightarrow> nat outcome" where
  "ex_no d = Returned 0"

definition ex_fail :: "nat \<Rightarrow> nat outcome" where
  "ex_fail d = Raised ''Unknown error''"

definition ex_conf :: "(nat, nat) conf" where
  "ex_conf = \<lparr>message = ''File editing confirmation'', data = 7,
              on_confirm = Some ex_ok, on_cancel = Some ex_no, timestamp = 1000\<rparr>"

definition ex_handler :: "(nat, nat) handler" where
  "ex_handler = \<lparr>pending_confirmations = [(''1b9d6bcd'', ex_conf)], timeout_seconds = 300\<rparr>"

text \<open>
  The text of a version 4 UUID whose first eight characters are the id above, and two
  answers to that id.
\<close>

definition ex_uuid :: string where
  "ex_uuid = ''1b9d6bcd-bbfd-4b2d-9b5d-ab8dfbbd4bed''"

definition ex_ops :: "(nat, nat) op list" where
  "ex_ops = [Handle ''1b9d6bcd'' True 1010, Handle ''1b9d6bcd'' True 1011]"

text \<open>
  A second confirmation, created at time 1200, whose confirm callback raises and which
  has no cancel callback; a store holding both; and a sequence of calls on the handler.
\<close>

definition ex_conf2 :: "(nat, nat) conf" where
  "ex_conf2 = \<lparr>message = ''File editing confirmation'', data = 9,
               on_confirm = Some ex_fail, on_cancel = None, timestamp = 1200\<rparr>"

definition ex_handler2 :: "(nat, nat) handler" where
  "ex_handler2 = \<lparr>pending_confirmations = [(''1b9d6bcd'', ex_conf), (''6ec0bd7f'', ex_conf2)],
                  timeout_seconds = 300\<rparr>"

definition ex_ops2 :: "(nat, nat) op list" where
  "ex_ops2 = [Create ex_uuid 1000 ''File editing confirmation'' 7 (Some ex_ok) (Some ex_no),
              Create ''6ec0bd7f-11c0-43da-975e-2a8ad9ebae0b'' 1200 ''File editing confirmation'' 9
                (Some ex_fail) None,
              Handle ''1b9d6bcd'' True 1010,
              Cleanup 1400]"

text \<open>
  Example values for the poller: a configuration with both credentials, an
  environment in which the POST succeeds, and the update the Bot API delivers when a
  button with callback data \<open>d\<close> is pressed.
\<close>

definition ex_cfg :: config where
  "ex_cfg = \<lparr>TELEGRAM_BOT_TOKEN = Some ''123456:ABC'', TELEGRAM_CHAT_ID = Some ''42''\<rparr>"

definition ex_env :: env where
  "ex_env = \<lparr>now = 1010, post_raises = False\<rparr>"

definition ex_press :: "int \<Rightarrow> string \<Rightarrow> json" where
  "ex_press n d =
     JObj [(''update_id'', JInt n),
           (''callback_query'', JObj [(''id'', JStr ''777''), (''data'', JStr d)])]"

text \<open>
  More example values: an environment in which the POST raises, a malformed update,
  and a response body with three updates.
\<close>

definition ex_env_fail :: env where
  "ex_env_fail = \<lparr>now = 1010, post_raises = True\<rparr>"

definition ex_malformed :: json where
  "ex_malformed = JObj [(''update_id'', JInt 6), (''callback_query'', JNull)]"

definition ex_body :: json where
  "ex_body = JObj [(''ok'', JBool True),
                   (''result'', JArr [ex_press 5 ''help'', ex_malformed,
                                      ex_press 7 ''confirm_1b9d6bcd''])]"

text \<open>
  A second UUID with the same first eight characters as the first.
\<close>

definition ex_uuid_b :: string where
  "ex_uuid_b = ''1b9d6bcd-3c5a-4e2f-8b1d-7f6a5e4d3c2b''"

text \<open>
  A batch of two presses: confirm on the second id while the POST raises, then cancel
  on the first id.
\<close>

definition ex_batch :: "(json \<times> env) list" where
  "ex_batch = [(ex_press 5 ''confirm_6ec0bd7f'', ex_env_fail),
               (ex_press 6 ''cancel_1b9d6bcd'', ex_env)]"

section \<open>Basic facts about the store\<close>

lemma map_of_delete_same: "map_of (AList.delete k al) k = None"
  by (simp add: delete_conv')

lemma handle_response_absent:
  "map_of (pending_confirmations h) cid = None \<Longrightarrow>
   handle_response h cid confirmed t = (Error msg_not_found, h, [])"
  by (simp add: handle_response_def)

lemma handle_response_pending:
  "pending_confirmations (fst (snd (handle_response h cid confirmed t))) =
   AList.delete cid (pending_confirmations h)"
  by (auto simp: handle_response_def Let_def map_of_eq_None_iff
           split: option.splits outcome.splits)

lemma handle_response_timeout:
  "timeout_seconds (fst (snd (handle_response h cid confirmed t))) = timeout_seconds h"
  by (auto simp: handle_response_def Let_def split: option.splits outcome.splits)

lemma handle_response_consumes:
  "map_of (pending_confirmations (fst (snd (handle_response h cid confirmed t)))) cid = None"
  by (simp add: handle_response_pending map_of_delete_same)

lemma del_each_filter:
  "distinct (map fst d) \<Longrightarrow> distinct ks \<Longrightarrow> set ks \<subseteq> fst ` set d \<Longrightarrow>
   del_each d ks = (None, filter (\<lambda>p. fst p \<notin> set ks) d)"
proof (induction ks arbitrary: d)
  case Nil
  then show ?case by simp
next
  case (Cons k ks)
  have in_d: "k \<in> fst ` set d" using Cons.prems(3) by simp
  have d1: "distinct (map fst (AList.delete k d))"
    using Cons.prems(1) by (rule distinct_delete)
  have d2: "distinct ks" using Cons.prems(2) by simp
  have "set ks \<subseteq> fst ` set d - {k}" using Cons.prems(2,3) by auto
  moreover have "fst ` set (AList.delete k d) = fst ` set d - {k}"
    by (force simp: AList.delete_eq)
  ultimately have d3: "set ks \<subseteq> fst ` set (AList.delete k d)"
    by simp
  have "del_each (AList.delete k d) ks = (None, filter (\<lambda>p. fst p \<notin> set ks) (AList.delete k d))"
    using Cons.IH [OF d1 d2 d3] .
  moreover have "filter (\<lambda>p. fst p \<notin> set ks) (AList.delete k d) =
                 filter (\<lambda>p. fst p \<notin> set (k # ks)) d"
    by (auto simp: AList.delete_eq intro: filter_cong)
  ultimately show ?case using in_d by simp
qed

lemma del_each_keys_subset: "fst ` set (snd (del_each d ks)) \<subseteq> fst ` set d"
proof (induction ks arbitrary: d)
  case Nil
  then show ?case by simp
next
  case (Cons k ks)
  show ?case
  proof (cases "k \<in> fst ` set d")
    case True
    then have "fst ` set (snd (del_each d (k # ks))) \<subseteq> fst ` set (AList.delete k d)"
      using Cons.IH [of "AList.delete k d"] by simp
    also have "\<dots> \<subseteq> fst ` set d" by (rule dom_delete_subset)
    finally show ?thesis .
  next
    case False
    then show ?thesis by simp
  qed
qed

lemma del_each_distinct:
  "distinct (map fst d) \<Longrightarrow> distinct (map fst (snd (del_each d ks)))"
proof (induction ks arbitrary: d)
  case Nil
  then show ?case by simp
next
  case (Cons k ks)
  then show ?case by (simp add: distinct_delete)
qed

lemma expired_ids_distinct: "distinct (keys h) \<Longrightarrow> distinct (expired_ids h t)"
  by (simp add: keys_def expired_ids_def distinct_map_filter)

lemma expired_ids_subset: "set (expired_ids h t) \<subseteq> fst ` set (pending_confirmations h)"
  by (auto simp: expired_ids_def)

lemma cleanup_expired_filter:
  assumes "distinct (keys h)"
  shows "cleanup_expired h t =
    (None, h\<lparr>pending_confirmations :=
               filter (\<lambda>(cid, c). \<not> t - timestamp c > timeout_seconds h)
                 (pending_confirmations h)\<rparr>, [])"
proof -
  have d: "distinct (map fst (pending_confirmations h))" using assms by (simp add: keys_def)
  have "del_each (pending_confirmations h) (expired_ids h t) =
        (None, filter (\<lambda>p. fst p \<notin> set (expired_ids h t)) (pending_confirmations h))"
    using d expired_ids_distinct [OF assms] expired_ids_subset by (rule del_each_filter)
  moreover have "filter (\<lambda>p. fst p \<notin> set (expired_ids h t)) (pending_confirmations h) =
        filter (\<lambda>(cid, c). \<not> t - timestamp c > timeout_seconds h) (pending_confirmations h)"
  proof (rule filter_cong[OF refl])
    fix p assume p: "p \<in> set (pending_confirmations h)"
    obtain k c where pc: "p = (k, c)" by (cases p)
    have "k \<in> set (expired_ids h t) \<longleftrightarrow> t - timestamp c > timeout_seconds h"
    proof
      assume "k \<in> set (expired_ids h t)"
      then obtain c' where c': "(k, c') \<in> set (pending_confirmations h)"
         "t - timestamp c' > timeout_seconds h"
        by (auto simp: expired_ids_def)
      have "c' = c" using d c'(1) p pc by (meson eq_key_imp_eq_value)
      then show "t - timestamp c > timeout_seconds h" using c'(2) by simp
    next
      assume "t - timestamp c > timeout_seconds h"
      then show "k \<in> set (expired_ids h t)" using p pc by (force simp: expired_ids_def)
    qed
    then show "(fst p \<notin> set (expired_ids h t)) =
               (case p of (cid, c) \<Rightarrow> \<not> t - timestamp c > timeout_seconds h)"
      by (simp add: pc)
  qed
  ultimately show ?thesis by (simp add: cleanup_expired_def)
qed


section \<open>Facts about sequences of calls\<close>

lemma create_confirmation_pending:
  "pending_confirmations (snd (create_confirmation h u t msg dat on_c on_x)) =
   AList.update (take 8 u)
     \<lparr>message = msg, data = dat, on_confirm = on_c, on_cancel = on_x, timestamp = t\<rparr>
     (pending_confirmations h)"
  by (simp add: create_confirmation_def Let_def)

lemma handle_response_calls:
  "set (snd (snd (handle_response h cid confirmed t))) \<subseteq> {On_confirm cid, On_cancel cid}
   \<and> length (snd (snd (handle_response h cid confirmed t))) \<le> 1"
  by (auto simp: handle_response_def Let_def split: option.splits outcome.splits)

lemma cleanup_expired_pending:
  "pending_confirmations (fst (snd (cleanup_expired h t))) =
   snd (del_each (pending_confirmations h) (expired_ids h t))"
  by (simp add: cleanup_expired_def split: prod.splits)

lemma cleanup_expired_calls: "snd (snd (cleanup_expired h t)) = []"
  by (simp add: cleanup_expired_def split: prod.splits)

lemma step_absent:
  assumes "cid \<notin> fst ` set (pending_confirmations h)" and "created_id x \<noteq> Some cid"
  shows "cid \<notin> fst ` set (pending_confirmations (fst (step h x)))"
proof (cases x)
  case (Create u t msg dat on_c on_x)
  then show ?thesis
    using assms by (simp add: create_confirmation_pending dom_update)
next
  case (Handle k confirmed t)
  then show ?thesis
    using assms(1) dom_delete_subset [of k "pending_confirmations h"]
    by (auto simp: handle_response_pending)
next
  case (Cleanup t)
  then show ?thesis
    using assms(1) del_each_keys_subset [of "pending_confirmations h" "expired_ids h t"]
    by (auto simp: cleanup_expired_pending)
qed

lemma step_calls_length: "length (filter (\<lambda>c. call_id c = cid) (snd (step h x))) \<le> 1"
proof (cases x)
  case (Handle k confirmed t)
  have "length (filter (\<lambda>c. call_id c = cid) (snd (snd (handle_response h k confirmed t))))
        \<le> length (snd (snd (handle_response h k confirmed t)))"
    by (rule length_filter_le)
  moreover have "length (snd (snd (handle_response h k confirmed t))) \<le> 1"
    using handle_response_calls [of h k confirmed t] by blast
  ultimately have "length (filter (\<lambda>c. call_id c = cid) (snd (snd (handle_response h k confirmed t)))) \<le> 1"
    by linarith
  then show ?thesis using Handle by simp
qed (simp_all add: cleanup_expired_calls)

lemma step_calls_absent:
  assumes "cid \<notin> fst ` set (pending_confirmations h)"
  shows "filter (\<lambda>c. call_id c = cid) (snd (step h x)) = []"
proof (cases x)
  case (Handle k confirmed t)
  show ?thesis
  proof (cases "k = cid")
    case True
    have "map_of (pending_confirmations h) cid = None"
      using assms by (simp add: map_of_eq_None_iff)
    then show ?thesis using Handle True by (simp add: handle_response_absent)
  next
    case False
    have "\<forall>c \<in> set (snd (snd (handle_response h k confirmed t))). call_id c = k"
      using handle_response_calls [of h k confirmed t] by auto
    then show ?thesis using Handle False by (auto simp: filter_empty_conv)
  qed
qed (simp_all add: cleanup_expired_calls)

lemma step_calls_consumes:
  assumes "filter (\<lambda>c. call_id c = cid) (snd (step h x)) \<noteq> []"
  shows "cid \<notin> fst ` set (pending_confirmations (fst (step h x)))"
proof (cases x)
  case (Handle k confirmed t)
  have "\<forall>c \<in> set (snd (snd (handle_response h k confirmed t))). call_id c = k"
    using handle_response_calls [of h k confirmed t] by auto
  then have "k = cid" using assms Handle by (auto simp: filter_empty_conv)
  then show ?thesis using Handle by (simp add: handle_response_pending delete_notin_dom)
next
  case (Create u t msg dat on_c on_x)
  then show ?thesis using assms by simp
next
  case (Cleanup t)
  then show ?thesis using assms by (simp add: cleanup_expired_calls)
qed

lemma run_absent:
  "cid \<notin> fst ` set (pending_confirmations h) \<Longrightarrow> \<forall>x \<in> set xs. created_id x \<noteq> Some cid \<Longrightarrow>
   cid \<notin> fst ` set (pending_confirmations (fst (run h xs)))
   \<and> filter (\<lambda>c. call_id c = cid) (snd (run h xs)) = []"
proof (induction xs arbitrary: h)
  case Nil
  then show ?case by simp
next
  case (Cons x xs)
  have a: "cid \<notin> fst ` set (pending_confirmations (fst (step h x)))"
    using Cons.prems by (simp add: step_absent)
  have b: "filter (\<lambda>c. call_id c = cid) (snd (step h x)) = []"
    using Cons.prems(1) by (rule step_calls_absent)
  have c: "\<forall>x \<in> set xs. created_id x \<noteq> Some cid" using Cons.prems(2) by simp
  show ?case using Cons.IH [OF a c] b by (simp add: split_beta)
qed

lemma run_calls_le_one:
  "\<forall>x \<in> set xs. created_id x \<noteq> Some cid \<Longrightarrow>
   length (filter (\<lambda>c. call_id c = cid) (snd (run h xs))) \<le> 1"
proof (induction xs arbitrary: h)
  case Nil
  then show ?case by simp
next
  case (Cons x xs)
  have c: "\<forall>x \<in> set xs. created_id x \<noteq> Some cid" using Cons.prems by simp
  show ?case
  proof (cases "filter (\<lambda>c. call_id c = cid) (snd (step h x)) = []")
    case True
    then show ?thesis using Cons.IH [OF c, of "fst (step h x)"] by (simp add: split_beta)
  next
    case False
    then have "cid \<notin> fst ` set (pending_confirmations (fst (step h x)))"
      by (rule step_calls_consumes)
    then have "filter (\<lambda>c. call_id c = cid) (snd (run (fst (step h x)) xs)) = []"
      using c run_absent by blast
    then show ?thesis using step_calls_length [of cid h x] by (simp add: split_beta)
  qed
qed

lemma run_append:
  "run h (xs @ ys) =
   (fst (run (fst (run h xs)) ys), snd (run h xs) @ snd (run (fst (run h xs)) ys))"
  by (induction xs arbitrary: h) (simp_all add: split_beta)

lemma run_after_handle:
  assumes "\<forall>x \<in> set ys. created_id x \<noteq> Some cid"
  shows "cid \<notin> fst ` set (pending_confirmations (fst (run h (xs @ Handle cid confirmed t # ys))))"
proof -
  let ?h1 = "fst (run h xs)"
  let ?h2 = "fst (snd (handle_response ?h1 cid confirmed t))"
  have "cid \<notin> fst ` set (pending_confirmations ?h2)"
    by (simp add: handle_response_pending delete_notin_dom)
  then have "cid \<notin> fst ` set (pending_confirmations (fst (run ?h2 ys)))"
    using assms run_absent by blast
  then show ?thesis by (simp add: run_append split_beta)
qed

lemma step_distinct: "distinct (keys h) \<Longrightarrow> distinct (keys (fst (step h x)))"
proof (cases x)
  case (Create u t msg dat on_c on_x)
  assume "distinct (keys h)"
  then show ?thesis using Create
    by (simp add: keys_def create_confirmation_pending distinct_update)
next
  case (Handle k confirmed t)
  assume "distinct (keys h)"
  then show ?thesis using Handle
    by (simp add: keys_def handle_response_pending distinct_delete)
next
  case (Cleanup t)
  assume "distinct (keys h)"
  then show ?thesis using Cleanup
    by (simp add: keys_def cleanup_expired_pending del_each_distinct)
qed

lemma run_distinct: "distinct (keys h) \<Longrightarrow> distinct (keys (fst (run h xs)))"
proof (induction xs arbitrary: h)
  case Nil
  then show ?case by simp
next
  case (Cons x xs)
  then show ?case using step_distinct [of h x] by (simp add: split_beta)
qed

lemma map_of_filter_distinct:
  "distinct (map fst xs) \<Longrightarrow>
   map_of (filter (\<lambda>(k, v). Q v) xs) k =
   (case map_of xs k of None \<Rightarrow> None | Some v \<Rightarrow> if Q v then Some v else None)"
proof (induction xs)
  case Nil
  then show ?case by simp
next
  case (Cons p xs)
  obtain k' v' where p: "p = (k', v')" by (cases p)
  have notin: "k' \<notin> fst ` set xs" using Cons.prems p by simp
  have ih: "map_of (filter (\<lambda>(k, v). Q v) xs) k =
    (case map_of xs k of None \<Rightarrow> None | Some v \<Rightarrow> if Q v then Some v else None)"
    using Cons by simp
  show ?case
  proof (cases "k = k'")
    case True
    have "map_of xs k = None" using notin True by (simp add: map_of_eq_None_iff)
    then show ?thesis using ih p True by simp
  next
    case False
    then show ?thesis using ih p by simp
  qed
qed

lemma ex_run:
  "run init_handler (Create ex_uuid 1000 ''File editing confirmation'' 7 (Some ex_ok) (Some ex_no) # ex_ops)
   = (init_handler, [On_confirm ''1b9d6bcd''])"
  by (simp add: ex_ops_def ex_uuid_def init_handler_def create_confirmation_def
        handle_response_def ex_ok_def Let_def)

lemma cleanup_expired_all_live:
  assumes "distinct (keys h)"
  shows "all_live (fst (snd (cleanup_expired h t))) t"
  by (simp add: cleanup_expired_filter [OF assms] all_live_def list_all_iff split_beta)

lemma keys_init: "distinct (keys init_handler)"
  by (simp add: keys_def init_handler_def)

lemma ex_run2: "fst (run init_handler ex_ops2) =
    \<lparr>pending_confirmations = [(''6ec0bd7f'', ex_conf2)], timeout_seconds = 300\<rparr>"
  by (simp add: ex_ops2_def ex_uuid_def init_handler_def create_confirmation_def
        handle_response_def ex_ok_def Let_def cleanup_expired_def expired_ids_def ex_conf2_def)

lemma msgs_differ: "msg_expired \<noteq> msg_not_found"
  by (simp add: msg_expired_def msg_not_found_def)

section \<open>Facts about the dispatcher\<close>

lemma replace_str_absent:
  "old \<noteq> [] \<Longrightarrow> \<not> sublist old s \<Longrightarrow> replace_str old [] s = s"
proof (induction s)
  case Nil
  then show ?case by simp
next
  case (Cons c cs)
  have np: "\<not> prefix old (c # cs)" and ns: "\<not> sublist old cs"
    using Cons.prems(2) by (simp_all add: sublist_Cons_right)
  show ?case using Cons.IH [OF Cons.prems(1) ns] np Cons.prems(1) by simp
qed

lemma replace_str_prefix:
  assumes "old \<noteq> []"
  shows "replace_str old new (old @ s) = new @ replace_str old new s"
proof -
  obtain c cs where o: "old = c # cs" using assms by (cases old) auto
  have "replace_str old new (c # (cs @ s)) =
        new @ replace_str old new (drop (length old) (c # (cs @ s)))"
    using assms o by simp
  then show ?thesis using o by simp
qed

lemma replace_str_strips:
  "old \<noteq> [] \<Longrightarrow> \<not> sublist old s \<Longrightarrow> replace_str old [] (old @ s) = s"
  by (simp add: replace_str_prefix replace_str_absent)

lemma handle_update_confirm:
  assumes "map_of items ''callback_query'' = Some (JObj cb)"
    and "map_of cb ''data'' = Some (JStr (''confirm_'' @ cid))"
    and "\<not> sublist ''confirm_'' cid"
  shows "handle_update h (JObj items) e = Inr (handle_confirmation h cid True (JObj cb) e)"
proof -
  have r: "replace_str ''confirm_'' [] (''confirm_'' @ cid) = cid"
    using assms(3) by (intro replace_str_strips) simp_all
  have p: "prefix ''confirm_'' (''confirm_'' @ cid)" by (rule prefixI) simp
  show ?thesis using assms(1,2) p r by (simp add: handle_update_def del: append.simps)
qed

lemma handle_update_cancel:
  assumes "map_of items ''callback_query'' = Some (JObj cb)"
    and "map_of cb ''data'' = Some (JStr (''cancel_'' @ cid))"
    and "\<not> sublist ''cancel_'' cid"
  shows "handle_update h (JObj items) e = Inr (handle_confirmation h cid False (JObj cb) e)"
proof -
  have r: "replace_str ''cancel_'' [] (''cancel_'' @ cid) = cid"
    using assms(3) by (intro replace_str_strips) simp_all
  have p: "prefix ''cancel_'' (''cancel_'' @ cid)" by (rule prefixI) simp
  have q: "\<not> prefix ''confirm_'' (''cancel_'' @ cid)" by simp
  show ?thesis using assms(1,2) p q r by (simp add: handle_update_def del: append.simps)
qed

lemma handle_update_ignored:
  assumes "map_of items ''callback_query'' = Some (JObj cb)"
    and "map_of cb ''data'' = Some (JStr d)"
    and "\<not> prefix ''confirm_'' d" and "\<not> prefix ''cancel_'' d"
  shows "handle_update h (JObj items) e = Inr (h, [])"
  using assms by (simp add: handle_update_def)

lemma no_underscore:
  assumes "CHR ''_'' \<notin> set cid"
  shows "\<not> sublist ''confirm_'' cid" and "\<not> sublist ''cancel_'' cid"
proof -
  have "CHR ''_'' \<in> set p \<Longrightarrow> \<not> sublist p cid" for p
    using assms set_mono_sublist by fastforce
  then show "\<not> sublist ''confirm_'' cid" and "\<not> sublist ''cancel_'' cid" by simp_all
qed

lemma handle_confirmation_state:
  "fst (handle_confirmation h cid confirmed callback e) =
     fst (snd (handle_response h cid confirmed (now e)))"
  by (simp add: handle_confirmation_def split: prod.splits)

lemma keyboard_callbacks_sent:
  assumes "send_confirmation_message cfg txt cid = Some p"
  shows "keyboard_callbacks p = [Some (''confirm_'' @ cid), Some (''cancel_'' @ cid)]"
  using assms
  by (auto simp: send_confirmation_message_def keyboard_callbacks_def Let_def split: if_splits)

lemma invoked_map: "invoked (map Invoked calls @ fx) = calls @ invoked fx"
  by (induction calls) simp_all

lemma handle_confirmation_calls:
  "invoked (snd (handle_confirmation h cid confirmed callback e)) =
     snd (snd (handle_response h cid confirmed (now e)))"
proof -
  obtain result h' calls where r: "handle_response h cid confirmed (now e) = (result, h', calls)"
    by (cases "handle_response h cid confirmed (now e)") auto
  show ?thesis
    by (simp add: handle_confirmation_def r invoked_map split: sum.splits)
qed

lemma ex_sent:
  "send_confirmation_message ex_cfg ''prompt'' ''1b9d6bcd'' =
     Some (JObj [(''chat_id'', JStr ''42''), (''text'', JStr ''prompt''),
       (''reply_markup'',
        JObj [(''inline_keyboard'',
               JArr [JArr
                 [JObj [(''text'', JStr label_yes), (''callback_data'', JStr ''confirm_1b9d6bcd'')],
                  JObj [(''text'', JStr label_no), (''callback_data'', JStr ''cancel_1b9d6bcd'')]]])])])"
  by (simp add: send_confirmation_message_def ex_cfg_def missing_def)

lemma ex_confirm_effect:
  "handle_confirmation ex_handler ''1b9d6bcd'' True
     (JObj [(''id'', JStr ''777''), (''data'', JStr d)]) ex_env =
   (ex_handler\<lparr>pending_confirmations := []\<rparr>,
    [Invoked (On_confirm ''1b9d6bcd''), Post_answer (JStr ''777'') True, Send_result (Success_result 8)])"
  by (simp add: handle_confirmation_def handle_response_def ex_handler_def ex_conf_def ex_env_def
        ex_ok_def)

lemma ex_cancel_effect:
  "handle_confirmation ex_handler ''1b9d6bcd'' False
     (JObj [(''id'', JStr ''777''), (''data'', JStr d)]) ex_env =
   (ex_handler\<lparr>pending_confirmations := []\<rparr>,
    [Invoked (On_cancel ''1b9d6bcd''), Post_answer (JStr ''777'') False,
     Send_result (Success_result_cancelled 0)])"
  by (simp add: handle_confirmation_def handle_response_def ex_handler_def ex_conf_def ex_env_def
        ex_no_def)

section \<open>Facts about the polling loop\<close>

lemma handle_update_dict_data:
  assumes "map_of items ''callback_query'' = Some (JObj cb)"
    and "map_of cb ''data'' = None \<or> (\<exists>d. map_of cb ''data'' = Some (JStr d))"
  shows "\<exists>r. handle_update h (JObj items) e = Inr r"
proof -
  obtain d where d: "(case map_of cb ''data'' of None \<Rightarrow> JStr [] | Some v \<Rightarrow> v) = JStr d"
    using assms(2) by auto
  show ?thesis
    unfolding handle_update_def using assms(1) d by simp
qed

lemma handle_update_well_formed:
  assumes "well_formed u"
  shows "\<exists>h' fx n. handle_update h u e = Inr (h', fx) \<and> subscript u ''update_id'' = Inr n"
proof -
  obtain items where u: "u = JObj items" using assms by (cases u) auto
  obtain n where n: "map_of items ''update_id'' = Some n" using assms u by auto
  have "\<exists>r. handle_update h (JObj items) e = Inr r"
  proof (cases "map_of items ''callback_query''")
    case None
    then show ?thesis by (simp add: handle_update_def)
  next
    case (Some callback)
    then obtain cb where cb: "callback = JObj cb"
      using assms u by (cases callback) simp_all
    have "map_of cb ''data'' = None \<or> (\<exists>d. map_of cb ''data'' = Some (JStr d))"
    proof (cases "map_of cb ''data''")
      case None
      then show ?thesis by simp
    next
      case (Some v)
      then show ?thesis using assms u \<open>map_of items ''callback_query'' = Some callback\<close> cb
        by (cases v) simp_all
    qed
    then show ?thesis using Some cb handle_update_dict_data by blast
  qed
  then show ?thesis using u n by auto
qed

lemma handle_update_not_dict:
  assumes "map_of items ''callback_query'' = Some c" and "\<forall>cb. c \<noteq> JObj cb"
  shows "handle_update h (JObj items) e = Inl AttributeError"
  using assms by (cases c) (simp_all add: handle_update_def)

lemma handle_update_not_str:
  assumes "map_of items ''callback_query'' = Some (JObj cb)"
    and "map_of cb ''data'' = Some v" and "\<forall>d. v \<noteq> JStr d"
  shows "handle_update h (JObj items) e = Inl AttributeError"
  using assms by (cases v) (simp_all add: handle_update_def)

lemma handle_update_bad_shape:
  assumes "map_of items ''update_id'' \<noteq> None" and "\<not> well_formed (JObj items)"
  shows "handle_update h (JObj items) e = Inl AttributeError"
proof (cases "map_of items ''callback_query''")
  case None
  then show ?thesis using assms by simp
next
  case (Some c)
  show ?thesis
  proof (cases "\<exists>cb. c = JObj cb")
    case False
    then show ?thesis using Some handle_update_not_dict by blast
  next
    case True
    then obtain cb where cb: "c = JObj cb" by blast
    show ?thesis
    proof (cases "map_of cb ''data''")
      case None
      then show ?thesis using assms Some cb by simp
    next
      case (Some v)
      have "\<forall>d. v \<noteq> JStr d"
        using assms \<open>map_of items ''callback_query'' = Some c\<close> cb Some by auto
      then show ?thesis
        using \<open>map_of items ''callback_query'' = Some c\<close> cb Some handle_update_not_str
        by blast
    qed
  qed
qed

lemma for_updates_malformed:
  assumes "\<not> well_formed u"
  shows "fst (for_updates b h ((u, e) # rest)) \<noteq> None
         \<and> fst (snd (for_updates b h ((u, e) # rest))) = b
         \<and> for_updates b h ((u, e) # rest) = for_updates b h [(u, e)]"
proof (cases "handle_update h u e")
  case (Inl err)
  then show ?thesis by simp
next
  case (Inr r)
  obtain h' fx where r: "r = (h', fx)" by (cases r)
  have "\<exists>err. subscript u ''update_id'' = Inl err"
  proof (cases u)
    case (JObj items)
    have "map_of items ''update_id'' = None"
    proof (rule ccontr)
      assume "map_of items ''update_id'' \<noteq> None"
      then have "handle_update h (JObj items) e = Inl AttributeError"
        using assms JObj handle_update_bad_shape by blast
      then show False using Inr JObj by simp
    qed
    then show ?thesis using JObj by simp
  qed simp_all
  then obtain err where "subscript u ''update_id'' = Inl err" by blast
  then show ?thesis using Inr r by simp
qed

lemma for_updates_append:
  "for_updates b h (us @ vs) =
     (case for_updates b h us of
        (None, b1, h1, fx1) \<Rightarrow>
          (case for_updates b1 h1 vs of (r, b2, h2, fx2) \<Rightarrow> (r, b2, h2, fx1 @ fx2))
      | (Some err, b1, h1, fx1) \<Rightarrow> (Some err, b1, h1, fx1))"
proof (induction us arbitrary: b h)
  case Nil
  then show ?case by (simp split: prod.splits)
next
  case (Cons p us)
  obtain u e where p: "p = (u, e)" by (cases p)
  show ?case
    by (simp add: p Cons.IH split: sum.splits prod.splits option.splits)
qed

lemma for_updates_well_formed:
  "list_all well_formed (map fst us) \<Longrightarrow>
   fst (for_updates b h us) = None
   \<and> (us \<noteq> [] \<longrightarrow>
        subscript (fst (last us)) ''update_id'' = Inr (last_update_id (fst (snd (for_updates b h us)))))
   \<and> running (fst (snd (for_updates b h us))) = running b"
proof (induction us arbitrary: b h)
  case Nil
  then show ?case by simp
next
  case (Cons p us)
  obtain u e where p: "p = (u, e)" by (cases p)
  have wf: "well_formed u" and rest: "list_all well_formed (map fst us)"
    using Cons.prems p by simp_all
  obtain h' fx n where s: "handle_update h u e = Inr (h', fx)" "subscript u ''update_id'' = Inr n"
    using handle_update_well_formed [OF wf] by blast
  note IH = Cons.IH [OF rest, of "b\<lparr>last_update_id := n\<rparr>" h']
  show ?case
  proof (cases "us = []")
    case True
    then show ?thesis using s p by simp
  next
    case False
    then show ?thesis using s p IH by (simp add: split_beta)
  qed
qed

lemma handle_response_after_create:
  "handle_response (snd (create_confirmation h u tc msg dat on_c on_x)) (take 8 u) confirmed t =
     (if t - tc > timeout_seconds h then
        (Error msg_expired,
         h\<lparr>pending_confirmations := AList.delete (take 8 u) (pending_confirmations h)\<rparr>, [])
      else
        (case (if confirmed then on_c else on_x) of
           None \<Rightarrow>
             (Success_cancelled (\<not> confirmed),
              h\<lparr>pending_confirmations := AList.delete (take 8 u) (pending_confirmations h)\<rparr>, [])
         | Some f \<Rightarrow>
             (case f dat of
                Returned r \<Rightarrow>
                  (if confirmed then Success_result r else Success_result_cancelled r,
                   h\<lparr>pending_confirmations := AList.delete (take 8 u) (pending_confirmations h)\<rparr>,
                   [if confirmed then On_confirm (take 8 u) else On_cancel (take 8 u)])
              | Raised e \<Rightarrow>
                  (Error e,
                   h\<lparr>pending_confirmations := AList.delete (take 8 u) (pending_confirmations h)\<rparr>,
                   [if confirmed then On_confirm (take 8 u) else On_cancel (take 8 u)]))))"
proof -
  let ?c = "\<lparr>message = msg, data = dat, on_confirm = on_c, on_cancel = on_x, timestamp = tc\<rparr>"
  let ?h1 = "snd (create_confirmation h u tc msg dat on_c on_x)"
  have p: "map_of (pending_confirmations ?h1) (take 8 u) = Some ?c"
    by (simp add: create_confirmation_pending update_conv')
  have d: "?h1\<lparr>pending_confirmations := AList.delete (take 8 u) (pending_confirmations ?h1)\<rparr> =
           h\<lparr>pending_confirmations := AList.delete (take 8 u) (pending_confirmations h)\<rparr>"
    by (simp add: create_confirmation_def Let_def delete_update_same)
  have w: "timeout_seconds ?h1 = timeout_seconds h"
    by (simp add: create_confirmation_def Let_def)
  show ?thesis
    by (simp add: handle_response_def p d w split: option.splits outcome.splits)
qed

lemma calls_of_first_handle:
  assumes "t1 - tc \<le> timeout_seconds h"
  shows "snd (snd (handle_response (snd (create_confirmation h u tc msg dat on_c on_x)) (take 8 u)
                     confirmed t1)) =
         (case (if confirmed then on_c else on_x) of
            None \<Rightarrow> []
          | Some f \<Rightarrow> [if confirmed then On_confirm (take 8 u) else On_cancel (take 8 u)])"
  using assms
  by (simp add: handle_response_after_create split: option.splits outcome.splits)

lemma filter_calls_of_first_handle:
  "filter (\<lambda>c. call_id c = cid)
     (case x of None \<Rightarrow> [] | Some f \<Rightarrow> [if confirmed then On_confirm cid else On_cancel cid]) =
   (case x of None \<Rightarrow> [] | Some f \<Rightarrow> [if confirmed then On_confirm cid else On_cancel cid])"
  by (simp split: option.splits)

lemma step_timeout: "timeout_seconds (fst (step h x)) = timeout_seconds h"
proof (cases x)
  case (Create u t msg dat on_c on_x)
  then show ?thesis by (simp add: create_confirmation_def Let_def)
next
  case (Handle k confirmed t)
  then show ?thesis by (simp add: handle_response_timeout)
next
  case (Cleanup t)
  then show ?thesis by (simp add: cleanup_expired_def split: prod.splits)
qed

lemma run_timeout: "timeout_seconds (fst (run h xs)) = timeout_seconds h"
proof (induction xs arbitrary: h)
  case Nil
  then show ?case by simp
next
  case (Cons x xs)
  then show ?case using step_timeout [of h x] by (simp add: split_beta)
qed

lemma step_store:
  assumes "distinct (keys h)"
  shows "map_of (pending_confirmations (fst (step h x))) k =
     (case x of
        Create u t msg dat on_c on_x \<Rightarrow>
          if k = take 8 u
          then Some \<lparr>message = msg, data = dat, on_confirm = on_c, on_cancel = on_x,
                     timestamp = t\<rparr>
          else map_of (pending_confirmations h) k
      | Handle cid confirmed t \<Rightarrow>
          if k = cid then None else map_of (pending_confirmations h) k
      | Cleanup t \<Rightarrow>
          (case map_of (pending_confirmations h) k of
             None \<Rightarrow> None
           | Some c \<Rightarrow> if t - timestamp c > timeout_seconds h then None else Some c))"
proof (cases x)
  case (Create u t msg dat on_c on_x)
  then show ?thesis by (simp add: create_confirmation_pending update_conv')
next
  case (Handle cid confirmed t)
  then show ?thesis by (simp add: handle_response_pending delete_conv')
next
  case (Cleanup t)
  have d: "distinct (map fst (pending_confirmations h))" using assms by (simp add: keys_def)
  have "map_of (filter (\<lambda>(cid, c). \<not> t - timestamp c > timeout_seconds h)
                  (pending_confirmations h)) k =
        (case map_of (pending_confirmations h) k of
           None \<Rightarrow> None
         | Some c \<Rightarrow> if t - timestamp c > timeout_seconds h then None else Some c)"
    using map_of_filter_distinct [OF d, of "\<lambda>c. \<not> t - timestamp c > timeout_seconds h" k]
    by (simp split: option.splits)
  then show ?thesis using Cleanup by (simp add: cleanup_expired_filter [OF assms])
qed

lemma for_updates_single:
  assumes "handle_update h u e = Inr (h', fx)" and "subscript u ''update_id'' = Inr n"
  shows "for_updates b h [(u, e)] = (None, b\<lparr>last_update_id := n\<rparr>, h', fx)"
  using assms by simp

lemma for_updates_raises:
  assumes "handle_update h u e = Inl err"
  shows "for_updates b h ((u, e) # rest) = (Some err, b, h, [])"
  using assms by simp

lemma for_updates_seq:
  assumes "list_all well_formed (map fst us)"
  shows "for_updates b h (us @ vs) =
     (case for_updates b h us of
        (r1, b1, h1, fx1) \<Rightarrow>
          (case for_updates b1 h1 vs of (r2, b2, h2, fx2) \<Rightarrow> (r2, b2, h2, fx1 @ fx2)))"
proof -
  obtain b1 h1 fx1 where r: "for_updates b h us = (None, b1, h1, fx1)"
    using for_updates_well_formed [OF assms, of b h]
    by (cases "for_updates b h us") auto
  show ?thesis by (simp add: for_updates_append r del: for_updates.simps)
qed

lemma for_updates_press:
  assumes "map_of items ''update_id'' = Some n"
    and "map_of items ''callback_query'' = Some (JObj cb)"
    and "map_of cb ''data'' = Some (JStr d)"
  shows "(d = ''confirm_'' @ cid \<and> \<not> sublist ''confirm_'' cid \<longrightarrow>
            for_updates b h [(JObj items, e)] =
              (None, b\<lparr>last_update_id := n\<rparr>, handle_confirmation h cid True (JObj cb) e))
       \<and> (d = ''cancel_'' @ cid \<and> \<not> sublist ''cancel_'' cid \<longrightarrow>
            for_updates b h [(JObj items, e)] =
              (None, b\<lparr>last_update_id := n\<rparr>, handle_confirmation h cid False (JObj cb) e))
       \<and> (\<not> prefix ''confirm_'' d \<and> \<not> prefix ''cancel_'' d \<longrightarrow>
            for_updates b h [(JObj items, e)] = (None, b\<lparr>last_update_id := n\<rparr>, h, []))"
proof -
  have s: "subscript (JObj items) ''update_id'' = Inr n" using assms(1) by simp
  have 1: "for_updates b h [(JObj items, e)] =
              (None, b\<lparr>last_update_id := n\<rparr>, handle_confirmation h cid True (JObj cb) e)"
    if "d = ''confirm_'' @ cid" "\<not> sublist ''confirm_'' cid"
  proof -
    have "handle_update h (JObj items) e = Inr (handle_confirmation h cid True (JObj cb) e)"
      using assms(2,3) that by (intro handle_update_confirm) simp_all
    then show ?thesis using s by (simp add: split_beta)
  qed
  have 2: "for_updates b h [(JObj items, e)] =
              (None, b\<lparr>last_update_id := n\<rparr>, handle_confirmation h cid False (JObj cb) e)"
    if "d = ''cancel_'' @ cid" "\<not> sublist ''cancel_'' cid"
  proof -
    have "handle_update h (JObj items) e = Inr (handle_confirmation h cid False (JObj cb) e)"
      using assms(2,3) that by (intro handle_update_cancel) simp_all
    then show ?thesis using s by (simp add: split_beta)
  qed
  have 3: "for_updates b h [(JObj items, e)] = (None, b\<lparr>last_update_id := n\<rparr>, h, [])"
    if "\<not> prefix ''confirm_'' d" "\<not> prefix ''cancel_'' d"
  proof -
    have "handle_update h (JObj items) e = Inr (h, [])"
      using assms(2,3) that by (rule handle_update_ignored)
    then show ?thesis using s by simp
  qed
  show ?thesis using 1 2 3 by blast
qed

lemma ex_replace_confirm: "replace_str ''confirm_'' [] ''confirm_6ec0bd7f'' = ''6ec0bd7f''"
proof -
  have "replace_str ''confirm_'' [] (''confirm_'' @ ''6ec0bd7f'') = ''6ec0bd7f''"
    by (rule replace_str_strips) (simp_all add: sublist_code)
  then show ?thesis by simp
qed

lemma ex_replace_cancel: "replace_str ''cancel_'' [] ''cancel_1b9d6bcd'' = ''1b9d6bcd''"
proof -
  have "replace_str ''cancel_'' [] (''cancel_'' @ ''1b9d6bcd'') = ''1b9d6bcd''"
    by (rule replace_str_strips) (simp_all add: sublist_code)
  then show ?thesis by simp
qed

lemma ex_batch_run:
  "for_updates init_bot ex_handler2 ex_batch =
     (None, init_bot\<lparr>last_update_id := JInt 6\<rparr>,
      ex_handler2\<lparr>pending_confirmations := []\<rparr>,
      [Invoked (On_confirm ''6ec0bd7f''), Post_answer (JStr ''777'') True,
       Invoked (On_cancel ''1b9d6bcd''), Post_answer (JStr ''777'') False,
       Send_result (Success_result_cancelled 0)])"
  by (simp add: ex_batch_def ex_press_def handle_update_def ex_replace_confirm ex_replace_cancel
        handle_confirmation_def handle_response_def ex_handler2_def ex_conf_def ex_conf2_def
        ex_fail_def ex_no_def ex_env_fail_def ex_env_def
        del: replace_str.simps)

lemma poll_once_batch:
  assumes "last_update_id b = JInt c" and "map_of body ''ok'' = Some (JBool True)"
    and "map_of body ''result'' = Some (JArr updates)"
  shows "poll_once b h (Response 200 (Some (JObj body))) envs =
           snd (for_updates b h (zip updates (map envs [0..<length updates])))"
  using assms by (simp add: poll_once_def)

section \<open>The claims\<close>

text \<open>
  C10.  When \<open>handle_response\<close> is called on an id whose entry is present but older
  than the timeout, it returns the expired error \<open>{"error": "Confirmacion expirada"}\<close>
  and invokes no callback, yet the entry has already been removed: the handler after
  the call differs from the one before, the id is no longer a key of the store, a
  retry on the same id answers not found, and the id is not among the ids a later
  sweep would delete.
\<close>

theorem handle_response_expired_consumes:
  assumes "map_of (pending_confirmations h) cid = Some c"
    and "t - timestamp c > timeout_seconds h"
  shows "handle_response h cid confirmed t =
           (Error msg_expired,
            h\<lparr>pending_confirmations := AList.delete cid (pending_confirmations h)\<rparr>, [])
         \<and> fst (snd (handle_response h cid confirmed t)) \<noteq> h
         \<and> cid \<notin> fst ` set (pending_confirmations (fst (snd (handle_response h cid confirmed t))))
         \<and> handle_response (fst (snd (handle_response h cid confirmed t))) cid confirmed' t' =
             (Error msg_not_found, fst (snd (handle_response h cid confirmed t)), [])
         \<and> cid \<notin> set (expired_ids (fst (snd (handle_response h cid confirmed t))) t')"
proof -
  let ?h' = "h\<lparr>pending_confirmations := AList.delete cid (pending_confirmations h)\<rparr>"
  have r: "handle_response h cid confirmed t = (Error msg_expired, ?h', [])"
    using assms by (simp add: handle_response_def)
  have gone: "map_of (pending_confirmations ?h') cid = None"
    by (simp add: map_of_delete_same)
  have notin: "cid \<notin> fst ` set (pending_confirmations ?h')"
    by (simp add: delete_notin_dom)
  have "pending_confirmations ?h' \<noteq> pending_confirmations h"
    using assms(1) gone by auto
  then have neq: "?h' \<noteq> h"
    by (metis handler.select_convs(1) handler.surjective handler.update_convs(1))
  have retry: "handle_response ?h' cid confirmed' t' = (Error msg_not_found, ?h', [])"
    using gone by (rule handle_response_absent)
  have sweep: "cid \<notin> set (expired_ids ?h' t')"
    using notin by (auto simp: expired_ids_def)
  show ?thesis
    using r neq notin retry sweep by simp
qed

theorem handle_response_expired_consumes_witness:
  "map_of (pending_confirmations ex_handler) ''1b9d6bcd'' = Some ex_conf
   \<and> 1301 - timestamp ex_conf > timeout_seconds ex_handler
   \<and> handle_response ex_handler ''1b9d6bcd'' True 1301 =
       (Error msg_expired, ex_handler\<lparr>pending_confirmations := []\<rparr>, [])
   \<and> handle_response (ex_handler\<lparr>pending_confirmations := []\<rparr>) ''1b9d6bcd'' False 1302 =
       (Error msg_not_found, ex_handler\<lparr>pending_confirmations := []\<rparr>, [])"
proof -
  have a: "map_of (pending_confirmations ex_handler) ''1b9d6bcd'' = Some ex_conf"
    by (simp add: ex_handler_def)
  have b: "1301 - timestamp ex_conf > timeout_seconds ex_handler"
    by (simp add: ex_handler_def ex_conf_def)
  have d: "AList.delete ''1b9d6bcd'' (pending_confirmations ex_handler) = []"
    by (simp add: ex_handler_def)
  note T = handle_response_expired_consumes [OF a b, of True False 1302, unfolded d]
  from T have r: "handle_response ex_handler ''1b9d6bcd'' True 1301 =
       (Error msg_expired, ex_handler\<lparr>pending_confirmations := []\<rparr>, [])" by blast
  from T have "handle_response (fst (snd (handle_response ex_handler ''1b9d6bcd'' True 1301)))
      ''1b9d6bcd'' False 1302 =
     (Error msg_not_found, fst (snd (handle_response ex_handler ''1b9d6bcd'' True 1301)), [])"
    by blast
  then have r2: "handle_response (ex_handler\<lparr>pending_confirmations := []\<rparr>) ''1b9d6bcd'' False 1302 =
       (Error msg_not_found, ex_handler\<lparr>pending_confirmations := []\<rparr>, [])"
    by (simp add: r)
  show ?thesis using a b r r2 by blast
qed

text \<open>
  C7.  On a store whose keys are distinct (as the keys of a dict are),
  \<open>cleanup_expired\<close> at time \<open>t\<close> finishes without \<open>KeyError\<close>, invokes no callback,
  keeps the timeout, and leaves exactly the entries whose age \<open>t - timestamp\<close> does
  not exceed the timeout, each unchanged and in its place: an id maps to its old entry
  when that entry is not expired and to nothing otherwise.
\<close>

theorem cleanup_expired_exact:
  assumes "distinct (keys h)"
  shows "fst (cleanup_expired h t) = None
    \<and> snd (snd (cleanup_expired h t)) = []
    \<and> timeout_seconds (fst (snd (cleanup_expired h t))) = timeout_seconds h
    \<and> pending_confirmations (fst (snd (cleanup_expired h t))) =
        filter (\<lambda>(cid, c). \<not> t - timestamp c > timeout_seconds h) (pending_confirmations h)
    \<and> (\<forall>cid. map_of (pending_confirmations (fst (snd (cleanup_expired h t)))) cid =
          (case map_of (pending_confirmations h) cid of
             None \<Rightarrow> None
           | Some c \<Rightarrow> if t - timestamp c > timeout_seconds h then None else Some c))"
proof -
  let ?keep = "filter (\<lambda>(cid, c). \<not> t - timestamp c > timeout_seconds h) (pending_confirmations h)"
  have r: "cleanup_expired h t = (None, h\<lparr>pending_confirmations := ?keep\<rparr>, [])"
    using assms by (rule cleanup_expired_filter)
  have d: "distinct (map fst (pending_confirmations h))" using assms by (simp add: keys_def)
  have m: "map_of ?keep cid =
          (case map_of (pending_confirmations h) cid of
             None \<Rightarrow> None
           | Some c \<Rightarrow> if t - timestamp c > timeout_seconds h then None else Some c)" for cid
    using map_of_filter_distinct [OF d, of "\<lambda>c. \<not> t - timestamp c > timeout_seconds h" cid]
    by (simp split: option.splits)
  show ?thesis using m by (simp add: r)
qed

text \<open>
  C7, at a concrete store: of two entries aged 400 and 200 seconds, the sweep removes
  the first and keeps the second.
\<close>

theorem cleanup_expired_exact_witness:
  "distinct (keys ex_handler2)
   \<and> cleanup_expired ex_handler2 1400 =
       (None, ex_handler2\<lparr>pending_confirmations := [(''6ec0bd7f'', ex_conf2)]\<rparr>, [])"
proof -
  have a: "distinct (keys ex_handler2)" by (simp add: keys_def ex_handler2_def)
  have f: "filter (\<lambda>(cid, c). \<not> 1400 - timestamp c > timeout_seconds ex_handler2)
             (pending_confirmations ex_handler2) = [(''6ec0bd7f'', ex_conf2)]"
    by (simp add: ex_handler2_def ex_conf_def ex_conf2_def)
  note T = cleanup_expired_exact [OF a, of 1400, unfolded f]
  have "cleanup_expired ex_handler2 1400 =
      (fst (cleanup_expired ex_handler2 1400), fst (snd (cleanup_expired ex_handler2 1400)),
       snd (snd (cleanup_expired ex_handler2 1400)))" by simp
  moreover have "fst (snd (cleanup_expired ex_handler2 1400)) =
      ex_handler2\<lparr>pending_confirmations := [(''6ec0bd7f'', ex_conf2)]\<rparr>"
    using T by (intro handler.equality) simp_all
  ultimately have "cleanup_expired ex_handler2 1400 =
       (None, ex_handler2\<lparr>pending_confirmations := [(''6ec0bd7f'', ex_conf2)]\<rparr>, [])"
    using T by simp
  then show ?thesis using a by blast
qed

text \<open>
  C6 as stated fails: \<open>create_confirmation\<close> on a store that already holds the id
  raises nothing; it returns the id and the old entry is replaced by the new one.
\<close>

theorem create_confirmation_duplicate_counterexample:
  "map_of (pending_confirmations ex_handler) (take 8 ex_uuid) = Some ex_conf
   \<and> create_confirmation ex_handler ex_uuid 2000 ''second request'' 9 None None =
       (''1b9d6bcd'',
        \<lparr>pending_confirmations =
           [(''1b9d6bcd'', \<lparr>message = ''second request'', data = 9, on_confirm = None,
                            on_cancel = None, timestamp = 2000\<rparr>)],
         timeout_seconds = 300\<rparr>)"
  by (simp add: ex_handler_def ex_uuid_def create_confirmation_def Let_def)

text \<open>
  C6, amended.  \<open>create_confirmation\<close> makes no check for an entry under the same
  id: it always returns the id, and afterwards the id maps to the new entry, every
  other id maps to what it did before, the keys are the old keys and the id, and the
  timeout is unchanged.  An entry already stored under the id is overwritten.
\<close>

theorem create_confirmation_overwrites:
  "fst (create_confirmation h u t msg dat on_c on_x) = take 8 u
   \<and> map_of (pending_confirmations (snd (create_confirmation h u t msg dat on_c on_x))) =
       (map_of (pending_confirmations h))
         (take 8 u \<mapsto> \<lparr>message = msg, data = dat, on_confirm = on_c, on_cancel = on_x,
                        timestamp = t\<rparr>)
   \<and> set (keys (snd (create_confirmation h u t msg dat on_c on_x))) = insert (take 8 u) (set (keys h))
   \<and> timeout_seconds (snd (create_confirmation h u t msg dat on_c on_x)) = timeout_seconds h"
proof -
  have "set (keys (snd (create_confirmation h u t msg dat on_c on_x))) = insert (take 8 u) (set (keys h))"
    using dom_update [of "take 8 u" _ "pending_confirmations h"]
    by (simp add: keys_def create_confirmation_pending)
  then show ?thesis
    by (simp add: create_confirmation_pending update_conv')
       (simp add: create_confirmation_def Let_def)
qed

text \<open>
  C3 as stated fails at the boundary: for an entry created at time 1000 with timeout
  300, a call at time 1300 (equal to creation time plus timeout) is not rejected; the
  confirm callback runs and its result is returned.
\<close>

theorem timeout_boundary_counterexample:
  "map_of (pending_confirmations ex_handler) ''1b9d6bcd'' = Some ex_conf
   \<and> timestamp ex_conf + timeout_seconds ex_handler = 1300
   \<and> handle_response ex_handler ''1b9d6bcd'' True 1300 =
       (Success_result 8, ex_handler\<lparr>pending_confirmations := []\<rparr>, [On_confirm ''1b9d6bcd''])"
  by (simp add: ex_handler_def ex_conf_def handle_response_def ex_ok_def)

text \<open>
  C3, amended.  For an entry created at time \<open>tc\<close> in a handler with timeout \<open>W\<close>:
  \<open>handle_response\<close> on its id at a time strictly after \<open>tc + W\<close> returns
  \<open>{"error": "Confirmacion expirada"}\<close> and invokes no callback; at any time up to and
  including \<open>tc + W\<close> it resolves: the callback selected by \<open>confirmed\<close>, if there is
  one, is invoked once and the result dict carries what it returned or the message of
  what it raised.  In both cases the entry is removed.
\<close>

theorem timeout_boundary:
  "(t > tc + timeout_seconds h \<longrightarrow>
      handle_response (snd (create_confirmation h u tc msg dat on_c on_x)) (take 8 u) confirmed t =
        (Error msg_expired,
         h\<lparr>pending_confirmations := AList.delete (take 8 u) (pending_confirmations h)\<rparr>, []))
   \<and> (t \<le> tc + timeout_seconds h \<longrightarrow>
      handle_response (snd (create_confirmation h u tc msg dat on_c on_x)) (take 8 u) confirmed t =
        (case (if confirmed then on_c else on_x) of
           None \<Rightarrow>
             (Success_cancelled (\<not> confirmed),
              h\<lparr>pending_confirmations := AList.delete (take 8 u) (pending_confirmations h)\<rparr>, [])
         | Some f \<Rightarrow>
             (case f dat of
                Returned r \<Rightarrow>
                  (if confirmed then Success_result r else Success_result_cancelled r,
                   h\<lparr>pending_confirmations := AList.delete (take 8 u) (pending_confirmations h)\<rparr>,
                   [if confirmed then On_confirm (take 8 u) else On_cancel (take 8 u)])
              | Raised e \<Rightarrow>
                  (Error e,
                   h\<lparr>pending_confirmations := AList.delete (take 8 u) (pending_confirmations h)\<rparr>,
                   [if confirmed then On_confirm (take 8 u) else On_cancel (take 8 u)]))))"
proof -
  let ?c = "\<lparr>message = msg, data = dat, on_confirm = on_c, on_cancel = on_x, timestamp = tc\<rparr>"
  let ?h1 = "snd (create_confirmation h u tc msg dat on_c on_x)"
  have p: "map_of (pending_confirmations ?h1) (take 8 u) = Some ?c"
    by (simp add: create_confirmation_pending update_conv')
  have d: "?h1\<lparr>pending_confirmations := AList.delete (take 8 u) (pending_confirmations ?h1)\<rparr> =
           h\<lparr>pending_confirmations := AList.delete (take 8 u) (pending_confirmations h)\<rparr>"
    by (simp add: create_confirmation_def Let_def delete_update_same)
  have w: "timeout_seconds ?h1 = timeout_seconds h"
    by (simp add: create_confirmation_def Let_def)
  have late: "t - tc > timeout_seconds h" if "t > tc + timeout_seconds h"
    using that by linarith
  have early: "\<not> t - tc > timeout_seconds h" if "t \<le> tc + timeout_seconds h"
    using that by linarith
  show ?thesis
  proof (intro conjI impI)
    assume "t > tc + timeout_seconds h"
    then show "handle_response ?h1 (take 8 u) confirmed t =
        (Error msg_expired,
         h\<lparr>pending_confirmations := AList.delete (take 8 u) (pending_confirmations h)\<rparr>, [])"
      using late by (simp add: handle_response_def p d w)
  next
    assume "t \<le> tc + timeout_seconds h"
    then have "\<not> t - tc > timeout_seconds h" by (rule early)
    then show "handle_response ?h1 (take 8 u) confirmed t =
        (case (if confirmed then on_c else on_x) of
           None \<Rightarrow>
             (Success_cancelled (\<not> confirmed),
              h\<lparr>pending_confirmations := AList.delete (take 8 u) (pending_confirmations h)\<rparr>, [])
         | Some f \<Rightarrow>
             (case f dat of
                Returned r \<Rightarrow>
                  (if confirmed then Success_result r else Success_result_cancelled r,
                   h\<lparr>pending_confirmations := AList.delete (take 8 u) (pending_confirmations h)\<rparr>,
                   [if confirmed then On_confirm (take 8 u) else On_cancel (take 8 u)])
              | Raised e \<Rightarrow>
                  (Error e,
                   h\<lparr>pending_confirmations := AList.delete (take 8 u) (pending_confirmations h)\<rparr>,
                   [if confirmed then On_confirm (take 8 u) else On_cancel (take 8 u)])))"
      by (simp add: handle_response_def p d w split: option.splits outcome.splits)
  qed
qed

text \<open>
  C3, amended, one second after the boundary and exactly on it.
\<close>

theorem timeout_boundary_witness:
  "(1301::real) > 1000 + timeout_seconds (init_handler :: (nat, nat) handler)
   \<and> handle_response
        (snd (create_confirmation init_handler ex_uuid 1000 ''File editing confirmation'' 7
               (Some ex_ok) (Some ex_no))) (take 8 ex_uuid) True 1301 =
       (Error msg_expired, init_handler, [])
   \<and> (1300::real) \<le> 1000 + timeout_seconds (init_handler :: (nat, nat) handler)
   \<and> handle_response
        (snd (create_confirmation init_handler ex_uuid 1000 ''File editing confirmation'' 7
               (Some ex_ok) (Some ex_no))) (take 8 ex_uuid) False 1300 =
       (Success_result_cancelled 0, init_handler, [On_cancel ''1b9d6bcd''])"
proof -
  have a: "(1301::real) > 1000 + timeout_seconds (init_handler :: (nat, nat) handler)"
    by (simp add: init_handler_def)
  have b: "(1300::real) \<le> 1000 + timeout_seconds (init_handler :: (nat, nat) handler)"
    by (simp add: init_handler_def)
  have d: "(init_handler :: (nat, nat) handler)\<lparr>pending_confirmations :=
             AList.delete (take 8 ex_uuid) (pending_confirmations init_handler)\<rparr> = init_handler"
    by (simp add: init_handler_def)
  have i: "take 8 ex_uuid = ''1b9d6bcd''" by (simp add: ex_uuid_def)
  have 1: "handle_response
        (snd (create_confirmation init_handler ex_uuid 1000 ''File editing confirmation'' 7
               (Some ex_ok) (Some ex_no))) (take 8 ex_uuid) True 1301 =
       (Error msg_expired, init_handler, [])"
    using a timeout_boundary [where t = 1301 and tc = 1000 and h = "init_handler :: (nat, nat) handler"
        and u = ex_uuid and msg = "''File editing confirmation''" and dat = 7
        and on_c = "Some ex_ok" and on_x = "Some ex_no" and confirmed = True, unfolded d]
    by simp
  have 2: "handle_response
        (snd (create_confirmation init_handler ex_uuid 1000 ''File editing confirmation'' 7
               (Some ex_ok) (Some ex_no))) (take 8 ex_uuid) False 1300 =
       (Success_result_cancelled 0, init_handler, [On_cancel ''1b9d6bcd''])"
    using b timeout_boundary [where t = 1300 and tc = 1000 and h = "init_handler :: (nat, nat) handler"
        and u = ex_uuid and msg = "''File editing confirmation''" and dat = 7
        and on_c = "Some ex_ok" and on_x = "Some ex_no" and confirmed = False, unfolded d]
    by (simp add: ex_no_def i)
  show ?thesis using a b 1 2 by blast
qed

text \<open>
  C6, amended, at the store that already holds the id.
\<close>

theorem create_confirmation_overwrites_witness:
  "fst (create_confirmation ex_handler ex_uuid 2000 ''second request'' 9 None None) = ''1b9d6bcd''
   \<and> map_of (pending_confirmations
        (snd (create_confirmation ex_handler ex_uuid 2000 ''second request'' 9 None None)))
        ''1b9d6bcd'' =
       Some \<lparr>message = ''second request'', data = 9, on_confirm = None, on_cancel = None,
             timestamp = 2000\<rparr>
   \<and> set (keys (snd (create_confirmation ex_handler ex_uuid 2000 ''second request'' 9 None None)))
       = {''1b9d6bcd''}"
proof -
  have i: "take 8 ex_uuid = ''1b9d6bcd''" by (simp add: ex_uuid_def)
  have k: "set (keys ex_handler) = {''1b9d6bcd''}" by (simp add: keys_def ex_handler_def)
  note T = create_confirmation_overwrites [of ex_handler ex_uuid 2000 "''second request''" 9 None None,
      unfolded i k]
  from T have "map_of (pending_confirmations
        (snd (create_confirmation ex_handler ex_uuid 2000 ''second request'' 9 None None)))
        ''1b9d6bcd'' =
       Some \<lparr>message = ''second request'', data = 9, on_confirm = None, on_cancel = None,
             timestamp = 2000\<rparr>"
    by simp
  then show ?thesis using T by simp
qed

text \<open>
  C4.  When the entry is pending and within its timeout, and the callback selected by
  \<open>confirmed\<close> raises an exception with message \<open>e\<close>, \<open>handle_response\<close> returns
  the dict \<open>{"error": e}\<close> as a value; the entry has been removed, and a retry on
  the same id returns the not-found error and changes nothing.
\<close>

theorem callback_exception_captured:
  assumes "map_of (pending_confirmations h) cid = Some c"
    and "\<not> t - timestamp c > timeout_seconds h"
    and "(confirmed \<and> (\<exists>f. on_confirm c = Some f \<and> f (data c) = Raised e))
         \<or> (\<not> confirmed \<and> (\<exists>g. on_cancel c = Some g \<and> g (data c) = Raised e))"
  shows "handle_response h cid confirmed t =
           (Error e,
            h\<lparr>pending_confirmations := AList.delete cid (pending_confirmations h)\<rparr>,
            [if confirmed then On_confirm cid else On_cancel cid])
         \<and> map_of (pending_confirmations (fst (snd (handle_response h cid confirmed t)))) cid = None
         \<and> handle_response (fst (snd (handle_response h cid confirmed t))) cid confirmed' t' =
             (Error msg_not_found, fst (snd (handle_response h cid confirmed t)), [])"
proof -
  have r: "handle_response h cid confirmed t =
           (Error e,
            h\<lparr>pending_confirmations := AList.delete cid (pending_confirmations h)\<rparr>,
            [if confirmed then On_confirm cid else On_cancel cid])"
    using assms by (auto simp: handle_response_def)
  have gone: "map_of (pending_confirmations (fst (snd (handle_response h cid confirmed t)))) cid = None"
    by (rule handle_response_consumes)
  have retry: "handle_response (fst (snd (handle_response h cid confirmed t))) cid confirmed' t' =
             (Error msg_not_found, fst (snd (handle_response h cid confirmed t)), [])"
    using gone by (rule handle_response_absent)
  show ?thesis using r gone retry by blast
qed

text \<open>
  C4, at an entry whose confirm callback raises.
\<close>

theorem callback_exception_captured_witness:
  "map_of (pending_confirmations ex_handler2) ''6ec0bd7f'' = Some ex_conf2
   \<and> \<not> 1250 - timestamp ex_conf2 > timeout_seconds ex_handler2
   \<and> on_confirm ex_conf2 = Some ex_fail \<and> ex_fail (data ex_conf2) = Raised ''Unknown error''
   \<and> handle_response ex_handler2 ''6ec0bd7f'' True 1250 =
       (Error ''Unknown error'',
        ex_handler2\<lparr>pending_confirmations := [(''1b9d6bcd'', ex_conf)]\<rparr>,
        [On_confirm ''6ec0bd7f''])
   \<and> handle_response (ex_handler2\<lparr>pending_confirmations := [(''1b9d6bcd'', ex_conf)]\<rparr>)
        ''6ec0bd7f'' True 1251 =
       (Error msg_not_found, ex_handler2\<lparr>pending_confirmations := [(''1b9d6bcd'', ex_conf)]\<rparr>, [])"
proof -
  have a: "map_of (pending_confirmations ex_handler2) ''6ec0bd7f'' = Some ex_conf2"
    by (simp add: ex_handler2_def)
  have b: "\<not> 1250 - timestamp ex_conf2 > timeout_seconds ex_handler2"
    by (simp add: ex_handler2_def ex_conf2_def)
  have c1: "on_confirm ex_conf2 = Some ex_fail" by (simp add: ex_conf2_def)
  have c2: "ex_fail (data ex_conf2) = Raised ''Unknown error''" by (simp add: ex_fail_def)
  have c: "(True \<and> (\<exists>f. on_confirm ex_conf2 = Some f \<and> f (data ex_conf2) = Raised ''Unknown error''))
         \<or> (\<not> True \<and> (\<exists>g. on_cancel ex_conf2 = Some g \<and> g (data ex_conf2) = Raised ''Unknown error''))"
    using c1 c2 by simp
  have d: "AList.delete ''6ec0bd7f'' (pending_confirmations ex_handler2) = [(''1b9d6bcd'', ex_conf)]"
    by (simp add: ex_handler2_def)
  note T = callback_exception_captured [OF a b c, of True 1251, unfolded d]
  from T have r: "handle_response ex_handler2 ''6ec0bd7f'' True 1250 =
       (Error ''Unknown error'',
        ex_handler2\<lparr>pending_confirmations := [(''1b9d6bcd'', ex_conf)]\<rparr>,
        [On_confirm ''6ec0bd7f''])"
    by simp
  from T have "handle_response (fst (snd (handle_response ex_handler2 ''6ec0bd7f'' True 1250)))
        ''6ec0bd7f'' True 1251 =
       (Error msg_not_found, fst (snd (handle_response ex_handler2 ''6ec0bd7f'' True 1250)), [])"
    by blast
  then have r2: "handle_response (ex_handler2\<lparr>pending_confirmations := [(''1b9d6bcd'', ex_conf)]\<rparr>)
        ''6ec0bd7f'' True 1251 =
       (Error msg_not_found, ex_handler2\<lparr>pending_confirmations := [(''1b9d6bcd'', ex_conf)]\<rparr>, [])"
    by (simp add: r)
  show ?thesis using a b c1 c2 r r2 by blast
qed

text \<open>
  C9.  \<open>start_polling\<close> on a running server changes nothing and starts no thread.
  \<open>stop_polling\<close> leaves the server stopped from any state, calling it again changes
  nothing more, it does not touch the cursor, and on a stopped server it changes
  nothing at all.
\<close>

theorem start_stop_polling:
  "(running b \<longrightarrow> start_polling b = (b, False))
   \<and> running (stop_polling b) = False
   \<and> stop_polling (stop_polling b) = stop_polling b
   \<and> last_update_id (stop_polling b) = last_update_id b
   \<and> (\<not> running b \<longrightarrow> stop_polling b = b)"
  by (simp add: start_polling_def stop_polling_def)

text \<open>
  C9, at the server just started and at the initial, stopped server.
\<close>

theorem start_stop_polling_witness:
  "running (fst (start_polling init_bot))
   \<and> start_polling (fst (start_polling init_bot)) = (fst (start_polling init_bot), False)
   \<and> \<not> running init_bot
   \<and> stop_polling init_bot = init_bot"
proof -
  have a: "running (fst (start_polling init_bot))"
    by (simp add: start_polling_def init_bot_def)
  have b: "\<not> running init_bot" by (simp add: init_bot_def)
  show ?thesis
    using a b start_stop_polling [of "fst (start_polling init_bot)"] start_stop_polling [of init_bot]
    by blast
qed

text \<open>
  C2, amended.  For an update whose \<open>callback_query\<close> is a dict with a string
  \<open>data\<close>: data \<open>"confirm_" + id\<close> is dispatched to \<open>_handle_confirmation\<close> with
  \<open>(id, True)\<close> and data \<open>"cancel_" + id\<close> with \<open>(id, False)\<close>, for every id in which
  the prefix itself does not occur; data with neither prefix causes no call and leaves
  the store as it is.  \<open>_handle_confirmation\<close> makes exactly the call
  \<open>handle_response(id, confirmed)\<close>: the store after it and the callbacks invoked are
  those of that call.  The two buttons of a sent confirmation message carry exactly
  \<open>"confirm_" + id\<close> and \<open>"cancel_" + id\<close>, and for an id without an underscore (as
  every id cut from a UUID is) pressing the first or second button is dispatched with
  \<open>(id, True)\<close> or \<open>(id, False)\<close>.
\<close>

theorem callback_routing:
  assumes "map_of items ''callback_query'' = Some (JObj cb)"
    and "map_of cb ''data'' = Some (JStr d)"
  shows "(d = ''confirm_'' @ cid \<and> \<not> sublist ''confirm_'' cid \<longrightarrow>
            handle_update h (JObj items) e = Inr (handle_confirmation h cid True (JObj cb) e))
    \<and> (d = ''cancel_'' @ cid \<and> \<not> sublist ''cancel_'' cid \<longrightarrow>
            handle_update h (JObj items) e = Inr (handle_confirmation h cid False (JObj cb) e))
    \<and> (\<not> prefix ''confirm_'' d \<and> \<not> prefix ''cancel_'' d \<longrightarrow>
            handle_update h (JObj items) e = Inr (h, []))
    \<and> fst (handle_confirmation h cid confirmed (JObj cb) e) =
         fst (snd (handle_response h cid confirmed (now e)))
    \<and> invoked (snd (handle_confirmation h cid confirmed (JObj cb) e)) =
         snd (snd (handle_response h cid confirmed (now e)))
    \<and> (send_confirmation_message cfg body cid = Some p \<longrightarrow>
         keyboard_callbacks p = [Some (''confirm_'' @ cid), Some (''cancel_'' @ cid)])
    \<and> (send_confirmation_message cfg body cid = Some p \<and> CHR ''_'' \<notin> set cid \<longrightarrow>
         (Some d = keyboard_callbacks p ! 0 \<longrightarrow>
            handle_update h (JObj items) e = Inr (handle_confirmation h cid True (JObj cb) e))
         \<and> (Some d = keyboard_callbacks p ! 1 \<longrightarrow>
            handle_update h (JObj items) e = Inr (handle_confirmation h cid False (JObj cb) e)))"
proof -
  have 1: "handle_update h (JObj items) e = Inr (handle_confirmation h cid True (JObj cb) e)"
    if "d = ''confirm_'' @ cid" "\<not> sublist ''confirm_'' cid"
    using assms that by (intro handle_update_confirm) simp_all
  have 2: "handle_update h (JObj items) e = Inr (handle_confirmation h cid False (JObj cb) e)"
    if "d = ''cancel_'' @ cid" "\<not> sublist ''cancel_'' cid"
    using assms that by (intro handle_update_cancel) simp_all
  have 3: "handle_update h (JObj items) e = Inr (h, [])"
    if "\<not> prefix ''confirm_'' d" "\<not> prefix ''cancel_'' d"
    using assms that by (rule handle_update_ignored)
  have 4: "fst (handle_confirmation h cid confirmed (JObj cb) e) =
         fst (snd (handle_response h cid confirmed (now e)))"
    by (rule handle_confirmation_state)
  have 5: "invoked (snd (handle_confirmation h cid confirmed (JObj cb) e)) =
         snd (snd (handle_response h cid confirmed (now e)))"
    by (rule handle_confirmation_calls)
  have 6: "keyboard_callbacks p = [Some (''confirm_'' @ cid), Some (''cancel_'' @ cid)]"
    if "send_confirmation_message cfg body cid = Some p"
    using that by (rule keyboard_callbacks_sent)
  have 7: "handle_update h (JObj items) e = Inr (handle_confirmation h cid True (JObj cb) e)"
    if "send_confirmation_message cfg body cid = Some p" "CHR ''_'' \<notin> set cid"
       "Some d = keyboard_callbacks p ! 0"
    using 1 6 [OF that(1)] no_underscore(1) [OF that(2)] that(3) by simp
  have 8: "handle_update h (JObj items) e = Inr (handle_confirmation h cid False (JObj cb) e)"
    if "send_confirmation_message cfg body cid = Some p" "CHR ''_'' \<notin> set cid"
       "Some d = keyboard_callbacks p ! 1"
    using 2 6 [OF that(1)] no_underscore(2) [OF that(2)] that(3) by simp
  show ?thesis using 1 2 3 4 5 6 7 8 by blast
qed

text \<open>
  C2 as stated fails: the prefixes the dispatcher knows are \<open>confirm_\<close> and
  \<open>cancel_\<close>.  With the id pending, callback data \<open>approve_1b9d6bcd\<close> or
  \<open>reject_1b9d6bcd\<close> causes no call of \<open>handle_response\<close>; the store is unchanged.
\<close>

theorem approve_prefix_counterexample:
  "map_of (pending_confirmations ex_handler) ''1b9d6bcd'' = Some ex_conf
   \<and> handle_update ex_handler (ex_press 5 ''approve_1b9d6bcd'') ex_env = Inr (ex_handler, [])
   \<and> handle_update ex_handler (ex_press 6 ''reject_1b9d6bcd'') ex_env = Inr (ex_handler, [])"
  by (simp add: ex_handler_def ex_press_def handle_update_def)

text \<open>
  C2, amended, at a concrete id: the buttons sent, and what pressing each does to a
  store that holds the id; data without a known prefix is ignored.
\<close>

theorem callback_routing_witness:
  "send_confirmation_message ex_cfg ''prompt'' ''1b9d6bcd'' \<noteq> None
   \<and> keyboard_callbacks (the (send_confirmation_message ex_cfg ''prompt'' ''1b9d6bcd'')) =
       [Some ''confirm_1b9d6bcd'', Some ''cancel_1b9d6bcd'']
   \<and> CHR ''_'' \<notin> set ''1b9d6bcd''
   \<and> handle_update ex_handler (ex_press 5 ''confirm_1b9d6bcd'') ex_env =
       Inr (ex_handler\<lparr>pending_confirmations := []\<rparr>,
            [Invoked (On_confirm ''1b9d6bcd''), Post_answer (JStr ''777'') True,
             Send_result (Success_result 8)])
   \<and> handle_update ex_handler (ex_press 6 ''cancel_1b9d6bcd'') ex_env =
       Inr (ex_handler\<lparr>pending_confirmations := []\<rparr>,
            [Invoked (On_cancel ''1b9d6bcd''), Post_answer (JStr ''777'') False,
             Send_result (Success_result_cancelled 0)])
   \<and> \<not> prefix ''confirm_'' ''help'' \<and> \<not> prefix ''cancel_'' ''help''
   \<and> handle_update ex_handler (ex_press 7 ''help'') ex_env = Inr (ex_handler, [])"
proof -
  let ?p = "the (send_confirmation_message ex_cfg ''prompt'' ''1b9d6bcd'')"
  have s: "send_confirmation_message ex_cfg ''prompt'' ''1b9d6bcd'' = Some ?p"
    by (simp add: ex_sent)
  have u: "CHR ''_'' \<notin> set ''1b9d6bcd''" by simp
  have q: "map_of [(''update_id'', JInt n),
             (''callback_query'', JObj [(''id'', JStr ''777''), (''data'', JStr d)])]
             ''callback_query'' = Some (JObj [(''id'', JStr ''777''), (''data'', JStr d)])" for n d
    by simp
  have dd: "map_of [(''id'', JStr ''777''), (''data'', JStr d)] ''data'' = Some (JStr d)" for d
    by simp
  note T1 = callback_routing [OF q [of 5 "''confirm_1b9d6bcd''"] dd [of "''confirm_1b9d6bcd''"], where cid = "''1b9d6bcd''"
      and cfg = ex_cfg and body = "''prompt''" and p = "?p" and h = ex_handler and e = ex_env]
  note T2 = callback_routing [OF q [of 6 "''cancel_1b9d6bcd''"] dd [of "''cancel_1b9d6bcd''"], where cid = "''1b9d6bcd''"
      and cfg = ex_cfg and body = "''prompt''" and p = "?p" and h = ex_handler and e = ex_env]
  note T3 = callback_routing [OF q [of 7 "''help''"] dd [of "''help''"], where cid = "''1b9d6bcd''"
      and cfg = ex_cfg and body = "''prompt''" and p = "?p" and h = ex_handler and e = ex_env]
  have k: "keyboard_callbacks ?p = [Some ''confirm_1b9d6bcd'', Some ''cancel_1b9d6bcd'']"
    using T1 s by simp
  have k0: "Some ''confirm_1b9d6bcd'' = keyboard_callbacks ?p ! 0"
    and k1: "Some ''cancel_1b9d6bcd'' = keyboard_callbacks ?p ! 1"
    by (simp_all add: k)
  have a: "handle_update ex_handler (ex_press 5 ''confirm_1b9d6bcd'') ex_env =
       Inr (handle_confirmation ex_handler ''1b9d6bcd'' True
         (JObj [(''id'', JStr ''777''), (''data'', JStr ''confirm_1b9d6bcd'')]) ex_env)"
    using T1 s u k0 unfolding ex_press_def by blast
  have b: "handle_update ex_handler (ex_press 6 ''cancel_1b9d6bcd'') ex_env =
       Inr (handle_confirmation ex_handler ''1b9d6bcd'' False
         (JObj [(''id'', JStr ''777''), (''data'', JStr ''cancel_1b9d6bcd'')]) ex_env)"
    using T2 s u k1 unfolding ex_press_def by blast
  have n1: "\<not> prefix ''confirm_'' ''help''" and n2: "\<not> prefix ''cancel_'' ''help''"
    by simp_all
  have c: "handle_update ex_handler (ex_press 7 ''help'') ex_env = Inr (ex_handler, [])"
    using T3 n1 n2 unfolding ex_press_def by blast
  have s': "send_confirmation_message ex_cfg ''prompt'' ''1b9d6bcd'' \<noteq> None"
    by (simp add: ex_sent)
  show ?thesis
    using s' k u a b c n1 n2 by (simp only: ex_confirm_effect ex_cancel_effect) blast
qed
text \<open>
  C1, amended.  Let a confirmation be created, and let any calls follow in which
  \<open>create_confirmation\<close> does not return the same id again.  Then
  \<open>create_confirmation\<close> returned the first eight characters of the UUID; over the
  whole sequence at most one resume callback is invoked for the id; once one
  \<open>handle_response\<close> on the id has been made, every later \<open>handle_response\<close> on it
  returns \<open>{"error": "Confirmacion no encontrada o expirada"}\<close>, leaves the handler as
  it is and invokes no callback; and when the first call after the creation is a
  \<open>handle_response\<close> on the id within the timeout, the callbacks invoked for the id
  over the whole sequence are exactly the one selected by \<open>confirmed\<close> (none when that
  callback is \<open>None\<close>).
\<close>

theorem single_resolution:
  assumes "\<forall>x \<in> set ops. created_id x \<noteq> Some (take 8 u)"
  shows "fst (create_confirmation h u t msg dat on_c on_x) = take 8 u
    \<and> length (filter (\<lambda>c. call_id c = take 8 u)
                (snd (run h (Create u t msg dat on_c on_x # ops)))) \<le> 1
    \<and> (\<forall>ops1 confirmed t1 ops2 confirmed' t'.
          ops = ops1 @ Handle (take 8 u) confirmed t1 # ops2 \<longrightarrow>
          handle_response (fst (run h (Create u t msg dat on_c on_x # ops))) (take 8 u)
              confirmed' t' =
            (Error msg_not_found, fst (run h (Create u t msg dat on_c on_x # ops)), []))
    \<and> (\<forall>confirmed t1 ops2.
          ops = Handle (take 8 u) confirmed t1 # ops2 \<and> t1 - t \<le> timeout_seconds h \<longrightarrow>
          filter (\<lambda>c. call_id c = take 8 u) (snd (run h (Create u t msg dat on_c on_x # ops))) =
            (case (if confirmed then on_c else on_x) of
               None \<Rightarrow> []
             | Some f \<Rightarrow> [if confirmed then On_confirm (take 8 u) else On_cancel (take 8 u)]))"
proof -
  let ?c = "Create u t msg dat on_c on_x"
  let ?h1 = "snd (create_confirmation h u t msg dat on_c on_x)"
  have all: "\<forall>x \<in> set ops. created_id x \<noteq> Some (take 8 u)" using assms .
  have 1: "fst (create_confirmation h u t msg dat on_c on_x) = take 8 u"
    by (simp add: create_confirmation_def Let_def)
  have "length (filter (\<lambda>c. call_id c = take 8 u) (snd (run (fst (step h ?c)) ops))) \<le> 1"
    using all by (rule run_calls_le_one)
  then have 2: "length (filter (\<lambda>c. call_id c = take 8 u) (snd (run h (?c # ops)))) \<le> 1"
    by (simp add: split_beta)
  have 3: "handle_response (fst (run h (?c # ops))) (take 8 u) confirmed' t' =
            (Error msg_not_found, fst (run h (?c # ops)), [])"
    if split: "ops = ops1 @ Handle (take 8 u) confirmed t1 # ops2"
    for ops1 confirmed t1 ops2 confirmed' t'
  proof -
    have "\<forall>x \<in> set ops2. created_id x \<noteq> Some (take 8 u)" using all split by simp
    then have "take 8 u \<notin> fst ` set (pending_confirmations
                 (fst (run h ((?c # ops1) @ Handle (take 8 u) confirmed t1 # ops2))))"
      by (rule run_after_handle)
    then have "take 8 u \<notin> fst ` set (pending_confirmations (fst (run h (?c # ops))))"
      using split by simp
    then have "map_of (pending_confirmations (fst (run h (?c # ops)))) (take 8 u) = None"
      by (simp add: map_of_eq_None_iff)
    then show ?thesis by (rule handle_response_absent)
  qed
  have 4: "filter (\<lambda>c. call_id c = take 8 u) (snd (run h (?c # ops))) =
            (case (if confirmed then on_c else on_x) of
               None \<Rightarrow> []
             | Some f \<Rightarrow> [if confirmed then On_confirm (take 8 u) else On_cancel (take 8 u)])"
    if first: "ops = Handle (take 8 u) confirmed t1 # ops2" and time: "t1 - t \<le> timeout_seconds h"
    for confirmed t1 ops2
  proof -
    let ?h2 = "fst (snd (handle_response ?h1 (take 8 u) confirmed t1))"
    have gone: "take 8 u \<notin> fst ` set (pending_confirmations ?h2)"
      by (simp add: handle_response_pending delete_notin_dom)
    have "\<forall>x \<in> set ops2. created_id x \<noteq> Some (take 8 u)" using all first by simp
    then have rest: "filter (\<lambda>c. call_id c = take 8 u) (snd (run ?h2 ops2)) = []"
      using gone run_absent by blast
    have "filter (\<lambda>c. call_id c = take 8 u) (snd (run h (?c # ops))) =
          filter (\<lambda>c. call_id c = take 8 u)
            (snd (snd (handle_response ?h1 (take 8 u) confirmed t1)))"
      using rest by (simp add: first split_beta)
    also have "\<dots> = (case (if confirmed then on_c else on_x) of
               None \<Rightarrow> []
             | Some f \<Rightarrow> [if confirmed then On_confirm (take 8 u) else On_cancel (take 8 u)])"
      by (simp only: calls_of_first_handle [OF time] filter_calls_of_first_handle)
    finally show ?thesis .
  qed
  show ?thesis using 1 2 3 4 by blast
qed

text \<open>
  C1 as stated fails: \<open>create_confirmation\<close> keeps only the first eight characters of
  the UUID and stores the entry by plain assignment, so it can return an id a second
  time.  Two UUIDs with the same first eight characters give the same id; after the
  first confirmation has been answered and the second created, a second
  \<open>handle_response\<close> on the id is not rejected: it runs the confirm callback of the
  second entry and returns its result, and the callback of the id has run twice.
\<close>

theorem reissued_id_counterexample:
  "take 8 ex_uuid_b = take 8 ex_uuid
   \<and> run init_handler
       [Create ex_uuid 1000 ''File editing confirmation'' 7 (Some ex_ok) (Some ex_no),
        Handle ''1b9d6bcd'' True 1010,
        Create ex_uuid_b 1020 ''File editing confirmation'' 9 (Some ex_ok) None,
        Handle ''1b9d6bcd'' True 1030] =
       (init_handler, [On_confirm ''1b9d6bcd'', On_confirm ''1b9d6bcd''])
   \<and> handle_response
        (fst (run init_handler
          [Create ex_uuid 1000 ''File editing confirmation'' 7 (Some ex_ok) (Some ex_no),
           Handle ''1b9d6bcd'' True 1010,
           Create ex_uuid_b 1020 ''File editing confirmation'' 9 (Some ex_ok) None]))
        ''1b9d6bcd'' True 1030 =
       (Success_result 10, init_handler, [On_confirm ''1b9d6bcd''])"
  by (simp add: ex_uuid_def ex_uuid_b_def init_handler_def create_confirmation_def
        handle_response_def ex_ok_def Let_def)

text \<open>
  C1, amended, at a concrete sequence: a confirmation is created and answered twice;
  the confirm callback runs once and a third answer is not found.
\<close>

theorem single_resolution_witness:
  "Some (take 8 ex_uuid) \<notin> set (map created_id ex_ops)
   \<and> ex_ops = [] @ Handle (take 8 ex_uuid) True 1010 # [Handle ''1b9d6bcd'' True 1011]
   \<and> (1010::real) - 1000 \<le> timeout_seconds (init_handler :: (nat, nat) handler)
   \<and> snd (run init_handler
        (Create ex_uuid 1000 ''File editing confirmation'' 7 (Some ex_ok) (Some ex_no) # ex_ops))
      = [On_confirm ''1b9d6bcd'']
   \<and> handle_response (fst (run init_handler
        (Create ex_uuid 1000 ''File editing confirmation'' 7 (Some ex_ok) (Some ex_no) # ex_ops)))
        (take 8 ex_uuid) False 1012
      = (Error msg_not_found, fst (run init_handler
        (Create ex_uuid 1000 ''File editing confirmation'' 7 (Some ex_ok) (Some ex_no) # ex_ops)), [])"
proof -
  have a: "\<forall>x \<in> set ex_ops. created_id x \<noteq> Some (take 8 ex_uuid)"
    by (simp add: ex_ops_def)
  have a': "Some (take 8 ex_uuid) \<notin> set (map created_id ex_ops)"
    by (simp add: ex_ops_def)
  have b: "ex_ops = [] @ Handle (take 8 ex_uuid) True 1010 # [Handle ''1b9d6bcd'' True 1011]"
    by (simp add: ex_ops_def ex_uuid_def)
  have b': "ex_ops = Handle (take 8 ex_uuid) True 1010 # [Handle ''1b9d6bcd'' True 1011]"
    using b by simp
  have c: "(1010::real) - 1000 \<le> timeout_seconds (init_handler :: (nat, nat) handler)"
    by (simp add: init_handler_def)
  note T = single_resolution [OF a, of init_handler 1000 "''File editing confirmation''" 7
             "Some ex_ok" "Some ex_no"]
  from T b have d: "handle_response (fst (run init_handler
        (Create ex_uuid 1000 ''File editing confirmation'' 7 (Some ex_ok) (Some ex_no) # ex_ops)))
        (take 8 ex_uuid) False 1012
      = (Error msg_not_found, fst (run init_handler
        (Create ex_uuid 1000 ''File editing confirmation'' 7 (Some ex_ok) (Some ex_no) # ex_ops)), [])"
    by blast
  have e: "snd (run init_handler
        (Create ex_uuid 1000 ''File editing confirmation'' 7 (Some ex_ok) (Some ex_no) # ex_ops))
      = [On_confirm ''1b9d6bcd'']"
    by (simp only: ex_run snd_conv)
  show ?thesis using a' b c d e by blast
qed

text \<open>
  C5 as stated fails in both halves.  After a confirmation is created at time 1000 and
  nothing else happens, the id is still in the store at time 1301, when its age exceeds
  the timeout of 300 seconds.  And after the confirmation has been answered (its
  confirm callback has run), a later \<open>create_confirmation\<close> that returns the same
  id puts the id back into the store.
\<close>

theorem store_holds_expired_or_resolved_counterexample:
  "''1b9d6bcd'' \<in> set (keys (fst (run init_handler
       [Create ex_uuid 1000 ''File editing confirmation'' (7::nat) (Some ex_ok) (Some ex_no)])))
   \<and> \<not> all_live (fst (run init_handler
       [Create ex_uuid 1000 ''File editing confirmation'' (7::nat) (Some ex_ok) (Some ex_no)])) 1301
   \<and> snd (run init_handler
       [Create ex_uuid 1000 ''File editing confirmation'' (7::nat) (Some ex_ok) (Some ex_no),
        Handle ''1b9d6bcd'' True 1010]) = [On_confirm ''1b9d6bcd'']
   \<and> ''1b9d6bcd'' \<in> set (keys (fst (run init_handler
       [Create ex_uuid 1000 ''File editing confirmation'' (7::nat) (Some ex_ok) (Some ex_no),
        Handle ''1b9d6bcd'' True 1010,
        Create ex_uuid_b 1020 ''File editing confirmation'' 9 (Some ex_ok) None])))"
  by (simp add: keys_def init_handler_def create_confirmation_def ex_uuid_def ex_uuid_b_def
        all_live_def handle_response_def ex_ok_def Let_def)

text \<open>
  C5, amended.  In every state reached from the empty store by calls of
  \<open>create_confirmation\<close>, \<open>handle_response\<close> and \<open>cleanup_expired\<close>: no id occurs
  twice among the keys and the timeout is 300.  One more call changes the store in
  exactly this way: \<open>create_confirmation\<close> sets the entry of the id it returns and
  leaves every other id as it was; \<open>handle_response\<close> removes the entry of its id and
  leaves every other id as it was; \<open>cleanup_expired\<close> at time \<open>t\<close> removes the
  entries older than 300 seconds at \<open>t\<close> and leaves every other entry as it was.  So
  an entry, expired or not, stays in the store, unchanged, until \<open>handle_response\<close> on
  its id or a sweep that finds it expired removes it, or \<open>create_confirmation\<close>
  overwrites it.  An id on which \<open>handle_response\<close> has been called, and which no
  later \<open>create_confirmation\<close> has returned again, is not in the store; and right
  after a sweep at time \<open>t\<close> every entry in the store has age at most the timeout.
\<close>

theorem store_invariant:
  "distinct (keys (fst (run init_handler ops)))
   \<and> timeout_seconds (fst (run init_handler ops)) = 300
   \<and> map_of (pending_confirmations (fst (run init_handler (ops @ [x])))) k =
       (case x of
          Create u t msg dat on_c on_x \<Rightarrow>
            if k = take 8 u
            then Some \<lparr>message = msg, data = dat, on_confirm = on_c, on_cancel = on_x,
                       timestamp = t\<rparr>
            else map_of (pending_confirmations (fst (run init_handler ops))) k
        | Handle cid' confirmed t \<Rightarrow>
            if k = cid' then None
            else map_of (pending_confirmations (fst (run init_handler ops))) k
        | Cleanup t \<Rightarrow>
            (case map_of (pending_confirmations (fst (run init_handler ops))) k of
               None \<Rightarrow> None
             | Some c \<Rightarrow> if t - timestamp c > 300 then None else Some c))
   \<and> (\<forall>ops1 confirmed t ops2.
         ops = ops1 @ Handle cid confirmed t # ops2 \<and> (\<forall>x \<in> set ops2. created_id x \<noteq> Some cid)
         \<longrightarrow> cid \<notin> set (keys (fst (run init_handler ops))))
   \<and> (\<forall>ops1 t. ops = ops1 @ [Cleanup t] \<longrightarrow> all_live (fst (run init_handler ops)) t)"
proof -
  have 1: "distinct (keys (fst (run init_handler ops)))"
    using keys_init by (rule run_distinct)
  have w: "timeout_seconds (fst (run init_handler ops)) = 300"
    by (simp add: run_timeout init_handler_def)
  have s: "map_of (pending_confirmations (fst (run init_handler (ops @ [x])))) k =
       (case x of
          Create u t msg dat on_c on_x \<Rightarrow>
            if k = take 8 u
            then Some \<lparr>message = msg, data = dat, on_confirm = on_c, on_cancel = on_x,
                       timestamp = t\<rparr>
            else map_of (pending_confirmations (fst (run init_handler ops))) k
        | Handle cid' confirmed t \<Rightarrow>
            if k = cid' then None
            else map_of (pending_confirmations (fst (run init_handler ops))) k
        | Cleanup t \<Rightarrow>
            (case map_of (pending_confirmations (fst (run init_handler ops))) k of
               None \<Rightarrow> None
             | Some c \<Rightarrow> if t - timestamp c > 300 then None else Some c))"
  proof -
    have "fst (run init_handler (ops @ [x])) = fst (step (fst (run init_handler ops)) x)"
      by (simp add: run_append split_beta)
    then show ?thesis
      using step_store [OF 1, of x k] by (simp add: w split: op.splits option.splits)
  qed
  have 2: "cid \<notin> set (keys (fst (run init_handler ops)))"
    if "ops = ops1 @ Handle cid confirmed t # ops2" "\<forall>x \<in> set ops2. created_id x \<noteq> Some cid"
    for ops1 confirmed t ops2
    using run_after_handle [OF that(2), of init_handler ops1 confirmed t] that(1)
    by (simp add: keys_def)
  have 3: "all_live (fst (run init_handler ops)) t" if "ops = ops1 @ [Cleanup t]" for ops1 t
  proof -
    have "distinct (keys (fst (run init_handler ops1)))"
      using keys_init by (rule run_distinct)
    then have "all_live (fst (snd (cleanup_expired (fst (run init_handler ops1)) t))) t"
      by (rule cleanup_expired_all_live)
    then show ?thesis using that by (simp add: run_append split_beta)
  qed
  show ?thesis using 1 w s 2 3 by blast
qed

text \<open>
  C5, amended, at a concrete sequence: two confirmations are created, the first is
  answered, then a sweep runs at time 1400; the store holds only the second id, which
  is live and unchanged; a further sweep at time 1501, when it is 301 seconds old,
  removes it.
\<close>

theorem store_invariant_witness:
  "ex_ops2 = [Create ex_uuid 1000 ''File editing confirmation'' 7 (Some ex_ok) (Some ex_no),
              Create ''6ec0bd7f-11c0-43da-975e-2a8ad9ebae0b'' 1200 ''File editing confirmation'' 9
                (Some ex_fail) None]
             @ Handle ''1b9d6bcd'' True 1010 # [Cleanup 1400]
   \<and> Some ''1b9d6bcd'' \<notin> set (map created_id [Cleanup 1400 :: (nat, nat) op])
   \<and> ex_ops2 = [Create ex_uuid 1000 ''File editing confirmation'' 7 (Some ex_ok) (Some ex_no),
              Create ''6ec0bd7f-11c0-43da-975e-2a8ad9ebae0b'' 1200 ''File editing confirmation'' 9
                (Some ex_fail) None,
              Handle ''1b9d6bcd'' True 1010] @ [Cleanup 1400]
   \<and> keys (fst (run init_handler ex_ops2)) = [''6ec0bd7f'']
   \<and> ''1b9d6bcd'' \<notin> set (keys (fst (run init_handler ex_ops2)))
   \<and> all_live (fst (run init_handler ex_ops2)) 1400
   \<and> map_of (pending_confirmations (fst (run init_handler ex_ops2))) ''6ec0bd7f'' = Some ex_conf2
   \<and> map_of (pending_confirmations (fst (run init_handler (ex_ops2 @ [Cleanup 1501]))))
        ''6ec0bd7f'' = None"
proof -
  have a: "ex_ops2 = [Create ex_uuid 1000 ''File editing confirmation'' 7 (Some ex_ok) (Some ex_no),
              Create ''6ec0bd7f-11c0-43da-975e-2a8ad9ebae0b'' 1200 ''File editing confirmation'' 9
                (Some ex_fail) None]
             @ Handle ''1b9d6bcd'' True 1010 # [Cleanup 1400]"
    by (simp add: ex_ops2_def)
  have b: "\<forall>x \<in> set [Cleanup 1400 :: (nat, nat) op]. created_id x \<noteq> Some ''1b9d6bcd''"
    by simp
  have b': "Some ''1b9d6bcd'' \<notin> set (map created_id [Cleanup 1400 :: (nat, nat) op])"
    by simp
  have c: "ex_ops2 = [Create ex_uuid 1000 ''File editing confirmation'' 7 (Some ex_ok) (Some ex_no),
              Create ''6ec0bd7f-11c0-43da-975e-2a8ad9ebae0b'' 1200 ''File editing confirmation'' 9
                (Some ex_fail) None,
              Handle ''1b9d6bcd'' True 1010] @ [Cleanup 1400]"
    by (simp add: ex_ops2_def)
  note T = store_invariant [where ops = ex_ops2 and cid = "''1b9d6bcd''"
      and x = "Cleanup 1501" and k = "''6ec0bd7f''"]
  have d: "''1b9d6bcd'' \<notin> set (keys (fst (run init_handler ex_ops2)))"
    using T a b by blast
  have e: "all_live (fst (run init_handler ex_ops2)) 1400"
    using T c by blast
  have f: "keys (fst (run init_handler ex_ops2)) = [''6ec0bd7f'']"
    by (simp add: ex_run2 keys_def)
  have g: "map_of (pending_confirmations (fst (run init_handler ex_ops2))) ''6ec0bd7f'' =
           Some ex_conf2"
    by (simp add: ex_run2)
  from T have "map_of (pending_confirmations (fst (run init_handler (ex_ops2 @ [Cleanup 1501]))))
        ''6ec0bd7f'' =
     (case map_of (pending_confirmations (fst (run init_handler ex_ops2))) ''6ec0bd7f'' of
        None \<Rightarrow> None
      | Some c \<Rightarrow> if 1501 - timestamp c > 300 then None else Some c)"
    by simp
  then have h: "map_of (pending_confirmations (fst (run init_handler (ex_ops2 @ [Cleanup 1501]))))
        ''6ec0bd7f'' = None"
    by (simp add: g ex_conf2_def)
  show ?thesis using a b' c d e f g h by blast
qed

text \<open>
  C8, amended.  The loop of \<open>_poll_once\<close> handles the updates of a batch in the
  order received: handling a batch whose first part is well formed is handling the
  first part and then, from the cursor and store it left, the rest, with the effects in
  that order.  One well-formed update is handled by \<open>_handle_update\<close> and then the
  cursor is set to its \<open>update_id\<close>; a press with data \<open>"confirm_" + id\<close> or
  \<open>"cancel_" + id\<close> (the id not containing the prefix) is the call
  \<open>handle_response(id, True)\<close> or \<open>handle_response(id, False)\<close>, whose store and
  invoked callbacks result, and data with neither prefix changes nothing but the
  cursor.  So for a well-formed batch the loop ends without exception and the cursor
  is the \<open>update_id\<close> of the last update, whatever the handler holds, whatever the
  callbacks do and whether or not the POST of the answer raises.  An update on which
  \<open>_handle_update\<close> raises ends the loop with that exception and changes nothing; a
  malformed update after well-formed ones ends the loop with an exception, the cursor
  stays where the well-formed updates left it, and the updates after the malformed one
  are not handled.  \<open>_poll_once\<close> on a response with status 200, a true \<open>ok\<close> and a
  list \<open>result\<close> returns the state this loop reaches.
\<close>

theorem cursor_advance:
  "(list_all well_formed (map fst us) \<longrightarrow>
      fst (for_updates b h us) = None
      \<and> (us \<noteq> [] \<longrightarrow>
           subscript (fst (last us)) ''update_id'' =
             Inr (last_update_id (fst (snd (for_updates b h us)))))
      \<and> for_updates b h (us @ vs) =
          (case for_updates b h us of
             (r1, b1, h1, fx1) \<Rightarrow>
               (case for_updates b1 h1 vs of (r2, b2, h2, fx2) \<Rightarrow> (r2, b2, h2, fx1 @ fx2))))
   \<and> (list_all well_formed (map fst us) \<and> \<not> well_formed bad \<longrightarrow>
      fst (for_updates b h (us @ (bad, e) # rest)) \<noteq> None
      \<and> fst (snd (for_updates b h (us @ (bad, e) # rest))) = fst (snd (for_updates b h us))
      \<and> for_updates b h (us @ (bad, e) # rest) = for_updates b h (us @ [(bad, e)]))
   \<and> (handle_update h u e = Inl err \<longrightarrow> for_updates b h ((u, e) # rest) = (Some err, b, h, []))
   \<and> (well_formed u \<longrightarrow>
        (\<exists>h' fx n. handle_update h u e = Inr (h', fx) \<and> subscript u ''update_id'' = Inr n
           \<and> for_updates b h [(u, e)] = (None, b\<lparr>last_update_id := n\<rparr>, h', fx)))
   \<and> (map_of items ''update_id'' = Some n \<and> map_of items ''callback_query'' = Some (JObj cb)
        \<and> map_of cb ''data'' = Some (JStr d) \<longrightarrow>
        (d = ''confirm_'' @ cid \<and> \<not> sublist ''confirm_'' cid \<longrightarrow>
            for_updates b h [(JObj items, e)] =
              (None, b\<lparr>last_update_id := n\<rparr>, handle_confirmation h cid True (JObj cb) e))
        \<and> (d = ''cancel_'' @ cid \<and> \<not> sublist ''cancel_'' cid \<longrightarrow>
            for_updates b h [(JObj items, e)] =
              (None, b\<lparr>last_update_id := n\<rparr>, handle_confirmation h cid False (JObj cb) e))
        \<and> (\<not> prefix ''confirm_'' d \<and> \<not> prefix ''cancel_'' d \<longrightarrow>
            for_updates b h [(JObj items, e)] = (None, b\<lparr>last_update_id := n\<rparr>, h, [])))
   \<and> fst (handle_confirmation h cid confirmed callback e) =
        fst (snd (handle_response h cid confirmed (now e)))
   \<and> invoked (snd (handle_confirmation h cid confirmed callback e)) =
        snd (snd (handle_response h cid confirmed (now e)))
   \<and> (last_update_id b = JInt c \<and> map_of body ''ok'' = Some (JBool True)
        \<and> map_of body ''result'' = Some (JArr updates) \<longrightarrow>
        poll_once b h (Response 200 (Some (JObj body))) envs =
          snd (for_updates b h (zip updates (map envs [0..<length updates]))))"
proof -
  have 1: "fst (for_updates b h us) = None
      \<and> (us \<noteq> [] \<longrightarrow>
           subscript (fst (last us)) ''update_id'' =
             Inr (last_update_id (fst (snd (for_updates b h us)))))
      \<and> for_updates b h (us @ vs) =
          (case for_updates b h us of
             (r1, b1, h1, fx1) \<Rightarrow>
               (case for_updates b1 h1 vs of (r2, b2, h2, fx2) \<Rightarrow> (r2, b2, h2, fx1 @ fx2)))"
    if wf: "list_all well_formed (map fst us)"
    using for_updates_well_formed [OF wf, of b h] for_updates_seq [OF wf, of b h vs] by blast
  have 2: "fst (for_updates b h (us @ (bad, e) # rest)) \<noteq> None
      \<and> fst (snd (for_updates b h (us @ (bad, e) # rest))) = fst (snd (for_updates b h us))
      \<and> for_updates b h (us @ (bad, e) # rest) = for_updates b h (us @ [(bad, e)])"
    if wf: "list_all well_formed (map fst us)" and bad: "\<not> well_formed bad"
  proof -
    obtain b1 h1 fx1 where r: "for_updates b h us = (None, b1, h1, fx1)"
      using for_updates_well_formed [OF wf, of b h]
      by (cases "for_updates b h us") auto
    note m = for_updates_malformed [OF bad, of b1 h1 e]
    obtain err h2 fx2 where one: "for_updates b1 h1 [(bad, e)] = (Some err, b1, h2, fx2)"
      using m [of "[]"] by (cases "for_updates b1 h1 [(bad, e)]") auto
    have all: "for_updates b1 h1 ((bad, e) # rest) = (Some err, b1, h2, fx2)"
      using m [of rest] one by simp
    show ?thesis
      by (simp add: for_updates_append r one all del: for_updates.simps)
  qed
  have 3: "for_updates b h ((u, e) # rest) = (Some err, b, h, [])"
    if "handle_update h u e = Inl err"
    using that by (rule for_updates_raises)
  have 4: "\<exists>h' fx n. handle_update h u e = Inr (h', fx) \<and> subscript u ''update_id'' = Inr n
           \<and> for_updates b h [(u, e)] = (None, b\<lparr>last_update_id := n\<rparr>, h', fx)"
    if wf: "well_formed u"
  proof -
    obtain h' fx n where s: "handle_update h u e = Inr (h', fx)" "subscript u ''update_id'' = Inr n"
      using handle_update_well_formed [OF wf] by blast
    then show ?thesis using for_updates_single [OF s] by blast
  qed
  have 5: "(d = ''confirm_'' @ cid \<and> \<not> sublist ''confirm_'' cid \<longrightarrow>
            for_updates b h [(JObj items, e)] =
              (None, b\<lparr>last_update_id := n\<rparr>, handle_confirmation h cid True (JObj cb) e))
        \<and> (d = ''cancel_'' @ cid \<and> \<not> sublist ''cancel_'' cid \<longrightarrow>
            for_updates b h [(JObj items, e)] =
              (None, b\<lparr>last_update_id := n\<rparr>, handle_confirmation h cid False (JObj cb) e))
        \<and> (\<not> prefix ''confirm_'' d \<and> \<not> prefix ''cancel_'' d \<longrightarrow>
            for_updates b h [(JObj items, e)] = (None, b\<lparr>last_update_id := n\<rparr>, h, []))"
    if "map_of items ''update_id'' = Some n" "map_of items ''callback_query'' = Some (JObj cb)"
       "map_of cb ''data'' = Some (JStr d)"
    using that by (rule for_updates_press)
  have 6: "fst (handle_confirmation h cid confirmed callback e) =
        fst (snd (handle_response h cid confirmed (now e)))"
    by (rule handle_confirmation_state)
  have 7: "invoked (snd (handle_confirmation h cid confirmed callback e)) =
        snd (snd (handle_response h cid confirmed (now e)))"
    by (rule handle_confirmation_calls)
  have 8: "poll_once b h (Response 200 (Some (JObj body))) envs =
          snd (for_updates b h (zip updates (map envs [0..<length updates])))"
    if "last_update_id b = JInt c" "map_of body ''ok'' = Some (JBool True)"
       "map_of body ''result'' = Some (JArr updates)"
    using that by (rule poll_once_batch)
  show ?thesis
    apply (intro conjI impI)
    using 1 apply blast
    using 1 apply blast
    using 1 apply blast
    using 2 apply blast
    using 2 apply blast
    using 2 apply blast
    using 3 apply blast
    using 4 apply blast
    using 5 apply blast
    using 5 apply blast
    using 5 apply blast
    using 6 apply blast
    using 7 apply blast
    using 8 apply blast
    done
qed

text \<open>
  C8 as stated fails: in a batch with update ids 5, 6 and 7 whose second update has
  \<open>callback_query\<close> \<open>null\<close>, \<open>_poll_once\<close> leaves the cursor at 5; the third update,
  a press of the confirm button of a pending id, is not handled.
\<close>

theorem malformed_event_counterexample:
  "poll_once init_bot ex_handler (Response 200 (Some ex_body)) (\<lambda>i. ex_env) =
     (init_bot\<lparr>last_update_id := JInt 5\<rparr>, ex_handler, [])"
  by (simp add: poll_once_def init_bot_def ex_body_def ex_press_def ex_malformed_def
        handle_update_def upt_rec del: replace_str.simps)

text \<open>
  C8, amended, at a concrete batch of two presses on a store with two entries: the
  confirm callback of the first raises and the POST raises, the second is a cancel;
  both are handled in order and the cursor moves to 6.  With a malformed update and a
  further press after them, the loop ends with \<open>AttributeError\<close>; cursor, store and
  effects are those of the first two updates.
\<close>

theorem cursor_advance_witness:
  "list_all well_formed (map fst ex_batch)
   \<and> \<not> well_formed ex_malformed
   \<and> for_updates init_bot ex_handler2 ex_batch =
       (None, init_bot\<lparr>last_update_id := JInt 6\<rparr>,
        ex_handler2\<lparr>pending_confirmations := []\<rparr>,
        [Invoked (On_confirm ''6ec0bd7f''), Post_answer (JStr ''777'') True,
         Invoked (On_cancel ''1b9d6bcd''), Post_answer (JStr ''777'') False,
         Send_result (Success_result_cancelled 0)])
   \<and> for_updates init_bot ex_handler2
        (ex_batch @ (ex_malformed, ex_env) # [(ex_press 8 ''confirm_1b9d6bcd'', ex_env)]) =
       (Some AttributeError, init_bot\<lparr>last_update_id := JInt 6\<rparr>,
        ex_handler2\<lparr>pending_confirmations := []\<rparr>,
        [Invoked (On_confirm ''6ec0bd7f''), Post_answer (JStr ''777'') True,
         Invoked (On_cancel ''1b9d6bcd''), Post_answer (JStr ''777'') False,
         Send_result (Success_result_cancelled 0)])"
proof -
  let ?rest = "(ex_malformed, ex_env) # [(ex_press 8 ''confirm_1b9d6bcd'', ex_env)]"
  let ?h = "ex_handler2\<lparr>pending_confirmations := []\<rparr>"
  let ?b = "init_bot\<lparr>last_update_id := JInt 6\<rparr>"
  have a: "list_all well_formed (map fst ex_batch)"
    by (simp add: ex_batch_def ex_press_def)
  have b: "\<not> well_formed ex_malformed"
    by (simp add: ex_malformed_def)
  have c: "handle_update ?h ex_malformed ex_env = Inl AttributeError"
    by (simp add: ex_malformed_def handle_update_def)
  note T1 = cursor_advance [where us = ex_batch and b = init_bot and h = ex_handler2
      and vs = "?rest"]
  note T2 = cursor_advance [where h = "?h" and u = ex_malformed and e = ex_env
      and err = AttributeError and b = "?b"
      and rest = "[(ex_press 8 ''confirm_1b9d6bcd'', ex_env)]"]
  have seq: "for_updates init_bot ex_handler2 (ex_batch @ ?rest) =
          (case for_updates init_bot ex_handler2 ex_batch of
             (r1, b1, h1, fx1) \<Rightarrow>
               (case for_updates b1 h1 ?rest of (r2, b2, h2, fx2) \<Rightarrow> (r2, b2, h2, fx1 @ fx2)))"
    using T1 a by blast
  have bad: "for_updates ?b ?h ?rest = (Some AttributeError, ?b, ?h, [])"
    using T2 c by blast
  have d: "for_updates init_bot ex_handler2 (ex_batch @ ?rest) =
       (Some AttributeError, ?b, ?h,
        [Invoked (On_confirm ''6ec0bd7f''), Post_answer (JStr ''777'') True,
         Invoked (On_cancel ''1b9d6bcd''), Post_answer (JStr ''777'') False,
         Send_result (Success_result_cancelled 0)])"
    by (simp only: seq ex_batch_run bad prod.case append_Nil2)
  show ?thesis using a b d ex_batch_run by blast
qed

end
